theory Spec2Isabelle
  imports Main
begin

section \<open>Errors\<close>

text \<open>
  Go's \<^verbatim>\<open>error\<close> values, kept structural. \<open>Opaque\<close> is an error produced outside
  \<^verbatim>\<open>sweep.go\<close> (by the backend, the client provider or an identifier codec).
  \<open>ErrorfS format err\<close> is \<^verbatim>\<open>fmt.Errorf(format, err)\<close> with the verb \<^verbatim>\<open>%s\<close>: only the
  message of \<open>err\<close> survives. \<open>ErrorfW format region err\<close> is
  \<^verbatim>\<open>fmt.Errorf(format, region, err)\<close> with the verbs \<^verbatim>\<open>%s\<close> and \<^verbatim>\<open>%w\<close>: the new error
  wraps \<open>err\<close>. \<open>MultiError\<close> is a non-empty \<^verbatim>\<open>*multierror.Error\<close> seen through the
  \<^verbatim>\<open>error\<close> interface.
\<close>

datatype error =
    Opaque string
  | ErrorfS string error
  | ErrorfW string string error
  | MultiError "error list"

fun Unwrap :: "error \<Rightarrow> error option" where
  "Unwrap (ErrorfW format region err) = Some err"
| "Unwrap (Opaque m) = None"
| "Unwrap (ErrorfS format err) = None"
| "Unwrap (MultiError es) = None"

text \<open>
  Modelled from the spec: the multi-error accumulator of the library go-multierror, which
  is not part of the repository. The spec describes it as "an ordered sequence of
  underlying failures with a mapping to a single presence flag". A \<^verbatim>\<open>*multierror.Error\<close>
  is \<open>None\<close> for the nil pointer and \<open>Some es\<close> for an accumulator holding \<open>es\<close>;
  \<open>Append\<close> adds one failure at the end, \<open>ErrorOrNil\<close> is nil exactly when nothing was
  accumulated. Every value that \<^verbatim>\<open>sweep.go\<close> appends is a single failure: the error of
  the access point encoder, or a value made by \<^verbatim>\<open>fmt.Errorf\<close>.
\<close>

type_synonym multierror = "error list option"

definition Append :: "multierror \<Rightarrow> error \<Rightarrow> multierror" where
  "Append m err = (case m of None \<Rightarrow> Some [err] | Some es \<Rightarrow> Some (es @ [err]))"

definition ErrorOrNil :: "multierror \<Rightarrow> error option" where
  "ErrorOrNil m =
     (case m of
        None \<Rightarrow> None
      | Some es \<Rightarrow> if es = [] then None else Some (MultiError es))"

section \<open>Data\<close>

text \<open>The four managed resources of the package, as returned by \<^verbatim>\<open>resourceAccessPoint()\<close>
  and its siblings.\<close>

datatype Resource =
    resourceAccessPoint
  | resourceMultiRegionAccessPoint
  | resourceObjectLambdaAccessPoint
  | resourceStorageLensConfiguration

text \<open>The regional client; the sweepers read only its account.\<close>

datatype Client = Client (AccountID: string)

text \<open>The raw items of the four listings, with the one field each sweeper reads. The
  fields are Go string pointers: \<open>None\<close> is nil.\<close>

datatype AccessPoint = AccessPoint (AccessPointArn: "string option")

datatype MultiRegionAccessPointReport = MultiRegionAccessPointReport (MRAP_Name: "string option")

datatype ObjectLambdaAccessPoint = ObjectLambdaAccessPoint (OLAP_Name: "string option")

datatype ListStorageLensConfigurationEntry =
  ListStorageLensConfigurationEntry (SLC_Id: "string option")

text \<open>\<^verbatim>\<open>aws.ToString\<close>: the empty string for a nil pointer.\<close>

definition ToString :: "string option \<Rightarrow> string" where
  "ToString p = (case p of None \<Rightarrow> [] | Some s \<Rightarrow> s)"

text \<open>\<^verbatim>\<open>sweep.NewSweepResource(r, d, client)\<close>, where \<open>d\<close> is fresh resource data whose only
  content is the identifier set by \<^verbatim>\<open>d.SetId\<close>.\<close>

datatype SweepResource = NewSweepResource Resource string Client

text \<open>Modelled from the spec: the region constants of the package \<^verbatim>\<open>names\<close>, which is outside
  the verified file.\<close>

definition USWest2RegionID :: string where
  "USWest2RegionID = ''us-west-2''"

definition USGovEast1RegionID :: string where
  "USGovEast1RegionID = ''us-gov-east-1''"

definition USGovWest1RegionID :: string where
  "USGovWest1RegionID = ''us-gov-west-1''"

section \<open>The world outside the sweepers\<close>

text \<open>
  Everything a sweeper does beyond computing its result is recorded as an event, in order:
  acquiring the regional client, fetching one page of a listing, printing a log line, and
  one deletion attempted by the orchestrator.
\<close>

datatype arg = Str string | Err error

datatype event =
    GetClient string
  | NextPage Resource
  | Printf string "arg list"
  | DeleteCall SweepResource

record 'b world =
  events :: "event list"
  backend :: 'b

definition emit :: "event \<Rightarrow> 'b world \<Rightarrow> 'b world" where
  "emit e w = w\<lparr>events := events w @ [e]\<rparr>"

text \<open>
  The collaborators that \<^verbatim>\<open>sweep.go\<close> calls and that live elsewhere are parameters.
  \<^item> \<open>SharedRegionalSweepClient region\<close>: the client of the region, or an error.
  \<^item> \<open>SkipSweepError err\<close>: the error classifier \<^verbatim>\<open>awsv2.SkipSweepError\<close>, on a non-nil
    error. The classifier inspects "an error returned from a listing call" (spec 4.3); on
    the nil error of a fetched page it answers no.
  \<^item> \<open>ListAccessPoints accountID\<close> and its three siblings: the outcomes of the successive
    \<^verbatim>\<open>NextPage\<close> calls of the paginator built for that account, a page of items or an
    error. \<^verbatim>\<open>HasMorePages\<close> holds while outcomes remain. A paginator of the SDK always
    fetches a first page, so the sequence of a real run is not empty; nothing below
    depends on that.
  \<^item> the four identifier encoders; only the access point's can fail.
  \<^item> \<open>Delete r b\<close>: the deletion bound to a sweep resource, run on the backend state \<open>b\<close>:
    its error, if any, and the backend state it leaves.
\<close>

record 'b env =
  SharedRegionalSweepClient :: "string \<Rightarrow> error + Client"
  SkipSweepError :: "error \<Rightarrow> bool"
  ListAccessPoints :: "string \<Rightarrow> (error + AccessPoint list) list"
  ListMultiRegionAccessPoints :: "string \<Rightarrow> (error + MultiRegionAccessPointReport list) list"
  ListAccessPointsForObjectLambda :: "string \<Rightarrow> (error + ObjectLambdaAccessPoint list) list"
  ListStorageLensConfigurations ::
    "string \<Rightarrow> (error + ListStorageLensConfigurationEntry list) list"
  AccessPointCreateResourceID :: "string \<Rightarrow> error + string"
  MultiRegionAccessPointCreateResourceID :: "string \<Rightarrow> string \<Rightarrow> string"
  ObjectLambdaAccessPointCreateResourceID :: "string \<Rightarrow> string \<Rightarrow> string"
  StorageLensConfigurationCreateResourceID :: "string \<Rightarrow> string \<Rightarrow> string"
  Delete :: "SweepResource \<Rightarrow> 'b \<Rightarrow> error option \<times> 'b"

section \<open>The orchestrator\<close>

text \<open>
  Modelled from the spec: \<^verbatim>\<open>sweep.SweepOrchestrator\<close> of the package \<^verbatim>\<open>internal/sweep\<close>,
  which is outside the verified file. The spec (4.5): "For each Sweepable, invoke
  its deletion. A failure on one Sweepable's deletion must not prevent attempts on the
  rest. All individual failures are aggregated into one returned error value; if the
  sequence is empty or all deletions succeed, returns no error." The deletions run one
  after the other, in the order of the sequence.
\<close>

fun SweepOrchestrator_range ::
  "'b env \<Rightarrow> SweepResource list \<Rightarrow> error list \<Rightarrow> 'b world \<Rightarrow> error list \<times> 'b world" where
  "SweepOrchestrator_range env [] errs w = (errs, w)"
| "SweepOrchestrator_range env (r # rs) errs w =
     (case Delete env r (backend w) of
        (None, b) \<Rightarrow>
          SweepOrchestrator_range env rs errs
            (w\<lparr>events := events w @ [DeleteCall r], backend := b\<rparr>)
      | (Some err, b) \<Rightarrow>
          SweepOrchestrator_range env rs (errs @ [err])
            (w\<lparr>events := events w @ [DeleteCall r], backend := b\<rparr>))"

definition SweepOrchestrator ::
  "'b env \<Rightarrow> SweepResource list \<Rightarrow> 'b world \<Rightarrow> error option \<times> 'b world" where
  "SweepOrchestrator env sweepResources w =
     (case SweepOrchestrator_range env sweepResources [] w of
        (errs, w') \<Rightarrow> (if errs = [] then None else Some (MultiError errs), w'))"

section \<open>The sweepers of \<^verbatim>\<open>sweep.go\<close>\<close>

text \<open>
  Each sweeper takes the collaborators, the region and the world, and returns its Go
  result (\<open>None\<close> is nil) with the world it leaves. \<^verbatim>\<open>sweep.Context(region)\<close>, the first
  statement of each, only derives a context value that is passed along; it is not an
  event.
\<close>

subsection \<open>Access points\<close>

text \<open>The loop over the items of one page (lines 74 to 85).\<close>

fun AccessPointList_range ::
  "'b env \<Rightarrow> Client \<Rightarrow> AccessPoint list \<Rightarrow> SweepResource list \<Rightarrow> multierror
     \<Rightarrow> SweepResource list \<times> multierror" where
  "AccessPointList_range env client [] sweepResources sweeperErrs =
     (sweepResources, sweeperErrs)"
| "AccessPointList_range env client (v # vs) sweepResources sweeperErrs =
     (case AccessPointCreateResourceID env (ToString (AccessPointArn v)) of
        Inl err \<Rightarrow>
          AccessPointList_range env client vs sweepResources (Append sweeperErrs err)
      | Inr i \<Rightarrow>
          AccessPointList_range env client vs
            (sweepResources @ [NewSweepResource resourceAccessPoint i client]) sweeperErrs)"

text \<open>
  The loop over the pages (lines 62 to 86). \<open>Inl\<close> is a \<^verbatim>\<open>return\<close> from inside the loop,
  with the returned value; \<open>Inr\<close> is the loop running to its end, with the two
  accumulators. On a fetched page \<^verbatim>\<open>err\<close> is nil: the classifier rejects it and the
  test \<^verbatim>\<open>err != nil\<close> fails, so the items are processed.
\<close>

fun AccessPoints_pages ::
  "'b env \<Rightarrow> string \<Rightarrow> Client \<Rightarrow> (error + AccessPoint list) list \<Rightarrow> SweepResource list
     \<Rightarrow> multierror \<Rightarrow> 'b world
     \<Rightarrow> (error option + SweepResource list \<times> multierror) \<times> 'b world" where
  "AccessPoints_pages env region client [] sweepResources sweeperErrs w =
     (Inr (sweepResources, sweeperErrs), w)"
| "AccessPoints_pages env region client (p # ps) sweepResources sweeperErrs w =
     (case p of
        Inl err \<Rightarrow>
          if SkipSweepError env err
          then (Inl (ErrorOrNil sweeperErrs),
                emit (Printf ''[WARN] Skipping S3 Access Point sweep for %s: %s''
                        [Str region, Err err])
                  (emit (NextPage resourceAccessPoint) w))
          else (Inl (Some (ErrorfW ''error listing S3 Access Points (%s): %w'' region err)),
                emit (NextPage resourceAccessPoint) w)
      | Inr page \<Rightarrow>
          (case AccessPointList_range env client page sweepResources sweeperErrs of
             (sweepResources', sweeperErrs') \<Rightarrow>
               AccessPoints_pages env region client ps sweepResources' sweeperErrs'
                 (emit (NextPage resourceAccessPoint) w)))"

definition sweepAccessPoints :: "'b env \<Rightarrow> string \<Rightarrow> 'b world \<Rightarrow> error option \<times> 'b world" where
  "sweepAccessPoints env region w =
     (case SharedRegionalSweepClient env region of
        Inl err \<Rightarrow> (Some (ErrorfS ''error getting client: %s'' err), emit (GetClient region) w)
      | Inr client \<Rightarrow>
          (case AccessPoints_pages env region client (ListAccessPoints env (AccountID client))
                  [] None (emit (GetClient region) w) of
             (Inl ret, w1) \<Rightarrow> (ret, w1)
           | (Inr (sweepResources, sweeperErrs), w1) \<Rightarrow>
               (case SweepOrchestrator env sweepResources w1 of
                  (None, w2) \<Rightarrow> (ErrorOrNil sweeperErrs, w2)
                | (Some err, w2) \<Rightarrow>
                    (ErrorOrNil
                       (Append sweeperErrs
                          (ErrorfW ''error sweeping S3 Access Points (%s): %w'' region err)),
                     w2))))"

subsection \<open>Multi-region access points\<close>

fun MultiRegionAccessPoints_range ::
  "'b env \<Rightarrow> string \<Rightarrow> Client \<Rightarrow> MultiRegionAccessPointReport list \<Rightarrow> SweepResource list
     \<Rightarrow> SweepResource list" where
  "MultiRegionAccessPoints_range env accountID client [] sweepResources = sweepResources"
| "MultiRegionAccessPoints_range env accountID client (v # vs) sweepResources =
     MultiRegionAccessPoints_range env accountID client vs
       (sweepResources @
        [NewSweepResource resourceMultiRegionAccessPoint
           (MultiRegionAccessPointCreateResourceID env accountID (ToString (MRAP_Name v)))
           client])"

fun MultiRegionAccessPoints_pages ::
  "'b env \<Rightarrow> string \<Rightarrow> Client \<Rightarrow> (error + MultiRegionAccessPointReport list) list
     \<Rightarrow> SweepResource list \<Rightarrow> 'b world
     \<Rightarrow> (error option + SweepResource list) \<times> 'b world" where
  "MultiRegionAccessPoints_pages env region client [] sweepResources w =
     (Inr sweepResources, w)"
| "MultiRegionAccessPoints_pages env region client (p # ps) sweepResources w =
     (case p of
        Inl err \<Rightarrow>
          if SkipSweepError env err
          then (Inl None,
                emit (Printf ''[WARN] Skipping S3 Multi-Region Access Point sweep for %s: %s''
                        [Str region, Err err])
                  (emit (NextPage resourceMultiRegionAccessPoint) w))
          else (Inl (Some (ErrorfW ''error listing S3 Multi-Region Access Points (%s): %w''
                             region err)),
                emit (NextPage resourceMultiRegionAccessPoint) w)
      | Inr page \<Rightarrow>
          MultiRegionAccessPoints_pages env region client ps
            (MultiRegionAccessPoints_range env (AccountID client) client page sweepResources)
            (emit (NextPage resourceMultiRegionAccessPoint) w))"

definition sweepMultiRegionAccessPoints ::
  "'b env \<Rightarrow> string \<Rightarrow> 'b world \<Rightarrow> error option \<times> 'b world" where
  "sweepMultiRegionAccessPoints env region w =
     (if region \<noteq> USWest2RegionID
      then (None,
            emit (Printf ''[WARN] Skipping S3 Multi-Region Access Point sweep for region: %s''
                    [Str region]) w)
      else
        (case SharedRegionalSweepClient env region of
           Inl err \<Rightarrow>
             (Some (ErrorfS ''error getting client: %s'' err), emit (GetClient region) w)
         | Inr client \<Rightarrow>
             (case MultiRegionAccessPoints_pages env region client
                     (ListMultiRegionAccessPoints env (AccountID client)) []
                     (emit (GetClient region) w) of
                (Inl ret, w1) \<Rightarrow> (ret, w1)
              | (Inr sweepResources, w1) \<Rightarrow>
                  (case SweepOrchestrator env sweepResources w1 of
                     (None, w2) \<Rightarrow> (None, w2)
                   | (Some err, w2) \<Rightarrow>
                       (Some (ErrorfW
                                ''error sweeping S3 Multi-Region Access Points (%s): %w''
                                region err),
                        w2)))))"

subsection \<open>Object Lambda access points\<close>

fun ObjectLambdaAccessPointList_range ::
  "'b env \<Rightarrow> string \<Rightarrow> Client \<Rightarrow> ObjectLambdaAccessPoint list \<Rightarrow> SweepResource list
     \<Rightarrow> SweepResource list" where
  "ObjectLambdaAccessPointList_range env accountID client [] sweepResources = sweepResources"
| "ObjectLambdaAccessPointList_range env accountID client (v # vs) sweepResources =
     ObjectLambdaAccessPointList_range env accountID client vs
       (sweepResources @
        [NewSweepResource resourceObjectLambdaAccessPoint
           (ObjectLambdaAccessPointCreateResourceID env accountID (ToString (OLAP_Name v)))
           client])"

fun ObjectLambdaAccessPoints_pages ::
  "'b env \<Rightarrow> string \<Rightarrow> Client \<Rightarrow> (error + ObjectLambdaAccessPoint list) list
     \<Rightarrow> SweepResource list \<Rightarrow> 'b world
     \<Rightarrow> (error option + SweepResource list) \<times> 'b world" where
  "ObjectLambdaAccessPoints_pages env region client [] sweepResources w =
     (Inr sweepResources, w)"
| "ObjectLambdaAccessPoints_pages env region client (p # ps) sweepResources w =
     (case p of
        Inl err \<Rightarrow>
          if SkipSweepError env err
          then (Inl None,
                emit (Printf ''[WARN] Skipping S3 Object Lambda Access Point sweep for %s: %s''
                        [Str region, Err err])
                  (emit (NextPage resourceObjectLambdaAccessPoint) w))
          else (Inl (Some (ErrorfW ''error listing S3 Object Lambda Access Points (%s): %w''
                             region err)),
                emit (NextPage resourceObjectLambdaAccessPoint) w)
      | Inr page \<Rightarrow>
          ObjectLambdaAccessPoints_pages env region client ps
            (ObjectLambdaAccessPointList_range env (AccountID client) client page
               sweepResources)
            (emit (NextPage resourceObjectLambdaAccessPoint) w))"

definition sweepObjectLambdaAccessPoints ::
  "'b env \<Rightarrow> string \<Rightarrow> 'b world \<Rightarrow> error option \<times> 'b world" where
  "sweepObjectLambdaAccessPoints env region w =
     (case SharedRegionalSweepClient env region of
        Inl err \<Rightarrow> (Some (ErrorfS ''error getting client: %s'' err), emit (GetClient region) w)
      | Inr client \<Rightarrow>
          (case ObjectLambdaAccessPoints_pages env region client
                  (ListAccessPointsForObjectLambda env (AccountID client)) []
                  (emit (GetClient region) w) of
             (Inl ret, w1) \<Rightarrow> (ret, w1)
           | (Inr sweepResources, w1) \<Rightarrow>
               (case SweepOrchestrator env sweepResources w1 of
                  (None, w2) \<Rightarrow> (None, w2)
                | (Some err, w2) \<Rightarrow>
                    (Some (ErrorfW ''error sweeping S3 Object Lambda Access Points (%s): %w''
                             region err),
                     w2))))"

subsection \<open>Storage Lens configurations\<close>

fun StorageLensConfigurationList_range ::
  "'b env \<Rightarrow> string \<Rightarrow> Client \<Rightarrow> ListStorageLensConfigurationEntry list
     \<Rightarrow> SweepResource list \<Rightarrow> SweepResource list" where
  "StorageLensConfigurationList_range env accountID client [] sweepResources =
     sweepResources"
| "StorageLensConfigurationList_range env accountID client (v # vs) sweepResources =
     (let configID = ToString (SLC_Id v) in
      if configID = ''default-account-dashboard''
      then StorageLensConfigurationList_range env accountID client vs sweepResources
      else StorageLensConfigurationList_range env accountID client vs
             (sweepResources @
              [NewSweepResource resourceStorageLensConfiguration
                 (StorageLensConfigurationCreateResourceID env accountID configID) client]))"

fun StorageLensConfigurations_pages ::
  "'b env \<Rightarrow> string \<Rightarrow> Client \<Rightarrow> (error + ListStorageLensConfigurationEntry list) list
     \<Rightarrow> SweepResource list \<Rightarrow> 'b world
     \<Rightarrow> (error option + SweepResource list) \<times> 'b world" where
  "StorageLensConfigurations_pages env region client [] sweepResources w =
     (Inr sweepResources, w)"
| "StorageLensConfigurations_pages env region client (p # ps) sweepResources w =
     (case p of
        Inl err \<Rightarrow>
          if SkipSweepError env err
          then (Inl None,
                emit (Printf ''[WARN] Skipping S3 Storage Lens Configuration sweep for %s: %s''
                        [Str region, Err err])
                  (emit (NextPage resourceStorageLensConfiguration) w))
          else (Inl (Some (ErrorfW ''error listing S3 Storage Lens Configurations (%s): %w''
                             region err)),
                emit (NextPage resourceStorageLensConfiguration) w)
      | Inr page \<Rightarrow>
          StorageLensConfigurations_pages env region client ps
            (StorageLensConfigurationList_range env (AccountID client) client page
               sweepResources)
            (emit (NextPage resourceStorageLensConfiguration) w))"

definition sweepStorageLensConfigurations ::
  "'b env \<Rightarrow> string \<Rightarrow> 'b world \<Rightarrow> error option \<times> 'b world" where
  "sweepStorageLensConfigurations env region w =
     (if region = USGovEast1RegionID \<or> region = USGovWest1RegionID
      then (None,
            emit (Printf ''[WARN] Skipping S3 Storage Lens Configuration sweep for region: %s''
                    [Str region]) w)
      else
        (case SharedRegionalSweepClient env region of
           Inl err \<Rightarrow>
             (Some (ErrorfS ''error getting client: %s'' err), emit (GetClient region) w)
         | Inr client \<Rightarrow>
             (case StorageLensConfigurations_pages env region client
                     (ListStorageLensConfigurations env (AccountID client)) []
                     (emit (GetClient region) w) of
                (Inl ret, w1) \<Rightarrow> (ret, w1)
              | (Inr sweepResources, w1) \<Rightarrow>
                  (case SweepOrchestrator env sweepResources w1 of
                     (None, w2) \<Rightarrow> (None, w2)
                   | (Some err, w2) \<Rightarrow>
                       (Some (ErrorfW
                                ''error sweeping S3 Storage Lens Configurations (%s): %w''
                                region err),
                        w2)))))"

section \<open>The registry and the harness\<close>

text \<open>
  One entry of the registry, as \<^verbatim>\<open>init\<close> builds it: the name, the discovery function and
  the names of the kinds that must be swept first.
\<close>

record 'b Sweeper =
  Name :: string
  F :: "'b env \<Rightarrow> string \<Rightarrow> 'b world \<Rightarrow> error option \<times> 'b world"
  Dependencies :: "string list"

type_synonym 'b registry = "(string \<times> 'b Sweeper) list"

text \<open>
  Modelled from the spec: \<^verbatim>\<open>resource.AddTestSweepers\<close> of the testing library, which is not
  part of the repository. The spec (3, 6): the registry maps a name to its entry, and
  "registering a duplicate name is a programming error, fatal at startup". \<open>None\<close> is that
  fatal stop.
\<close>

definition AddTestSweepers :: "string \<Rightarrow> 'b Sweeper \<Rightarrow> 'b registry \<Rightarrow> 'b registry option" where
  "AddTestSweepers name s reg =
     (if name \<in> set (map fst reg) then None else Some (reg @ [(name, s)]))"

text \<open>\<^verbatim>\<open>init\<close> (lines 22 to 45), from the empty registry.\<close>

definition init :: "'b registry option" where
  "init =
     Option.bind
       (AddTestSweepers ''aws_s3_access_point''
          \<lparr>Name = ''aws_s3_access_point'',
           F = sweepAccessPoints,
           Dependencies = [''aws_s3control_object_lambda_access_point'']\<rparr> [])
       (\<lambda>reg1. Option.bind
          (AddTestSweepers ''aws_s3control_multi_region_access_point''
             \<lparr>Name = ''aws_s3control_multi_region_access_point'',
              F = sweepMultiRegionAccessPoints,
              Dependencies = []\<rparr> reg1)
          (\<lambda>reg2. Option.bind
             (AddTestSweepers ''aws_s3control_object_lambda_access_point''
                \<lparr>Name = ''aws_s3control_object_lambda_access_point'',
                 F = sweepObjectLambdaAccessPoints,
                 Dependencies = []\<rparr> reg2)
             (\<lambda>reg3.
                AddTestSweepers ''aws_s3control_storage_lens_configuration''
                  \<lparr>Name = ''aws_s3control_storage_lens_configuration'',
                   F = sweepStorageLensConfigurations,
                   Dependencies = []\<rparr> reg3)))"

text \<open>
  Modelled from the spec: the invoking harness, which is part of the testing library and
  not of the repository. The spec (5, 6): the harness "selects a region, resolves
  dependency order among registered kinds, invokes each kind's discovery function", and
  "a kind's sweep must not start until all its declared dependencies have completed"; a
  failure of one kind does not stop the others. The harness is sequential: a discovery
  function is a call that returns before the next one starts. \<open>results\<close> lists the kinds
  in the order their discovery functions were invoked, each with what it returned. A kind
  already run is not run again, and a name with no entry is passed over. The first
  argument bounds the depth of the dependency chains followed: \<open>None\<close> means the bound was
  reached.
\<close>

record 'b run =
  results :: "(string \<times> error option) list"
  world :: "'b world"

fun runSweeper ::
    "nat \<Rightarrow> 'b registry \<Rightarrow> 'b env \<Rightarrow> string \<Rightarrow> string \<Rightarrow> 'b run \<Rightarrow> 'b run option"
  and runSweeperList ::
    "nat \<Rightarrow> 'b registry \<Rightarrow> 'b env \<Rightarrow> string \<Rightarrow> string list \<Rightarrow> 'b run \<Rightarrow> 'b run option"
where
  "runSweeper 0 reg env region name st = None"
| "runSweeper (Suc n) reg env region name st =
     (if name \<in> set (map fst (results st)) then Some st
      else
        (case map_of reg name of
           None \<Rightarrow> Some st
         | Some s \<Rightarrow>
             (case runSweeperList n reg env region (Dependencies s) st of
                None \<Rightarrow> None
              | Some st1 \<Rightarrow>
                  (case F s env region (world st1) of
                     (res, w) \<Rightarrow>
                       Some \<lparr>results = results st1 @ [(name, res)], world = w\<rparr>))))"
| "runSweeperList n reg env region [] st = Some st"
| "runSweeperList n reg env region (d # ds) st =
     (case runSweeper n reg env region d st of
        None \<Rightarrow> None
      | Some st1 \<Rightarrow> runSweeperList n reg env region ds st1)"

text \<open>Running the full registry: \<open>order\<close> is the order in which the harness takes the
  names up, which the registry (a Go map) does not fix.\<close>

definition runSweepers ::
  "'b registry \<Rightarrow> 'b env \<Rightarrow> string \<Rightarrow> string list \<Rightarrow> 'b world \<Rightarrow> 'b run option" where
  "runSweepers reg env region order w =
     runSweeperList (Suc (length reg)) reg env region order \<lparr>results = [], world = w\<rparr>"

text \<open>\<open>before a b xs\<close>: both names occur in \<open>xs\<close>, and some occurrence of \<open>a\<close> precedes the
  first \<open>b\<close>.\<close>

definition before :: "'a \<Rightarrow> 'a \<Rightarrow> 'a list \<Rightarrow> bool" where
  "before a b xs = (b \<in> set xs \<and> a \<in> set (takeWhile (\<lambda>x. x \<noteq> b) xs))"

section \<open>The identifier codec\<close>

text \<open>
  Modelled from the spec: the identifier codecs of the four resource kinds
  (\<^verbatim>\<open>AccessPointCreateResourceID\<close>, \<^verbatim>\<open>MultiRegionAccessPointCreateResourceID\<close> and the
  others, with their parsers), which are outside the verified file. The spec (2, 3): the
  codec "encodes/decodes a resource's natural key (one or more strings, e.g. account id +
  name) into a single opaque identifier string and back"; the key is "represented as a
  delimited string", with "a delimiter that cannot appear inside any component". The
  delimiter \<open>sep\<close> is a parameter; a key is valid when it has at least one component and
  no component holds the delimiter.
\<close>

fun encode :: "char \<Rightarrow> string list \<Rightarrow> string" where
  "encode sep [] = []"
| "encode sep [k] = k"
| "encode sep (k # k' # ks) = k @ sep # encode sep (k' # ks)"

fun split_at :: "char \<Rightarrow> string \<Rightarrow> string \<Rightarrow> string list" where
  "split_at sep cur [] = [cur]"
| "split_at sep cur (c # cs) =
     (if c = sep then cur # split_at sep [] cs else split_at sep (cur @ [c]) cs)"

definition decode :: "char \<Rightarrow> string \<Rightarrow> string list" where
  "decode sep s = split_at sep [] s"

definition valid_key :: "char \<Rightarrow> string list \<Rightarrow> bool" where
  "valid_key sep ks = (ks \<noteq> [] \<and> list_all (\<lambda>k. sep \<notin> set k) ks)"

section \<open>What the loops are expected to compute\<close>

text \<open>
  Stated item by item, for comparison with the loops above. An access point yields a
  sweep resource when its ARN encodes, and a build error when it does not.
\<close>

fun accessPointSweepables :: "'b env \<Rightarrow> Client \<Rightarrow> AccessPoint list \<Rightarrow> SweepResource list" where
  "accessPointSweepables env client [] = []"
| "accessPointSweepables env client (v # vs) =
     (case AccessPointCreateResourceID env (ToString (AccessPointArn v)) of
        Inl err \<Rightarrow> accessPointSweepables env client vs
      | Inr i \<Rightarrow> NewSweepResource resourceAccessPoint i client # accessPointSweepables env client vs)"

fun accessPointBuildErrors :: "'b env \<Rightarrow> AccessPoint list \<Rightarrow> error list" where
  "accessPointBuildErrors env [] = []"
| "accessPointBuildErrors env (v # vs) =
     (case AccessPointCreateResourceID env (ToString (AccessPointArn v)) of
        Inl err \<Rightarrow> err # accessPointBuildErrors env vs
      | Inr i \<Rightarrow> accessPointBuildErrors env vs)"

text \<open>The accumulator after appending the failures \<open>es\<close>, one by one.\<close>

definition Appends :: "multierror \<Rightarrow> error list \<Rightarrow> multierror" where
  "Appends m es = foldl Append m es"

definition multiRegionAccessPointSweepable ::
  "'b env \<Rightarrow> Client \<Rightarrow> MultiRegionAccessPointReport \<Rightarrow> SweepResource" where
  "multiRegionAccessPointSweepable env client v =
     NewSweepResource resourceMultiRegionAccessPoint
       (MultiRegionAccessPointCreateResourceID env (AccountID client) (ToString (MRAP_Name v)))
       client"

definition objectLambdaAccessPointSweepable ::
  "'b env \<Rightarrow> Client \<Rightarrow> ObjectLambdaAccessPoint \<Rightarrow> SweepResource" where
  "objectLambdaAccessPointSweepable env client v =
     NewSweepResource resourceObjectLambdaAccessPoint
       (ObjectLambdaAccessPointCreateResourceID env (AccountID client) (ToString (OLAP_Name v)))
       client"

definition storageLensConfigurationSweepable ::
  "'b env \<Rightarrow> Client \<Rightarrow> ListStorageLensConfigurationEntry \<Rightarrow> SweepResource" where
  "storageLensConfigurationSweepable env client v =
     NewSweepResource resourceStorageLensConfiguration
       (StorageLensConfigurationCreateResourceID env (AccountID client) (ToString (SLC_Id v)))
       client"

definition isDefaultDashboard :: "ListStorageLensConfigurationEntry \<Rightarrow> bool" where
  "isDefaultDashboard v = (ToString (SLC_Id v) = ''default-account-dashboard'')"

text \<open>The outcomes of the deletions of a sequence, run in order from the backend state
  \<open>b\<close>, and the failures among them.\<close>

fun deletion_outcomes :: "'b env \<Rightarrow> SweepResource list \<Rightarrow> 'b \<Rightarrow> error option list" where
  "deletion_outcomes env [] b = []"
| "deletion_outcomes env (r # rs) b =
     (case Delete env r b of (res, b') \<Rightarrow> res # deletion_outcomes env rs b')"

fun failures :: "error option list \<Rightarrow> error list" where
  "failures [] = []"
| "failures (None # os) = failures os"
| "failures (Some err # os) = err # failures os"

text \<open>The events of a world that are deletions.\<close>

fun deletions :: "event list \<Rightarrow> SweepResource list" where
  "deletions [] = []"
| "deletions (DeleteCall r # es) = r # deletions es"
| "deletions (e # es) = deletions es"

text \<open>The kinds swept so far in a run of the harness, and the property that the run
  keeps: no kind is swept twice, and access points are swept only after Object Lambda
  access points.\<close>

definition swept :: "'b run \<Rightarrow> string list" where
  "swept st = map fst (results st)"

definition swept_in_order :: "'b run \<Rightarrow> bool" where
  "swept_in_order st =
     (distinct (swept st) \<and>
      (''aws_s3_access_point'' \<in> set (swept st) \<longrightarrow>
         before ''aws_s3control_object_lambda_access_point'' ''aws_s3_access_point'' (swept st)))"

section \<open>Concrete runs\<close>

text \<open>
  A small account, used to run the sweepers on concrete inputs. The backend state counts
  the deletions it has served. The access point listing is the two-page scenario of the
  spec: three items on the first page, one of them with a nil ARN that does not encode,
  and two items on the second.
\<close>

definition client0 :: Client where
  "client0 = Client ''123456789012''"

definition w0 :: "nat world" where
  "w0 = \<lparr>events = [], backend = 0\<rparr>"

definition env0 :: "nat env" where
  "env0 =
     \<lparr>SharedRegionalSweepClient = (\<lambda>region. Inr client0),
      SkipSweepError = (\<lambda>err. err = Opaque ''UnsupportedOperation''),
      ListAccessPoints =
        (\<lambda>accountID.
           [Inr [AccessPoint (Some ''arn:a''), AccessPoint None, AccessPoint (Some ''arn:b'')],
            Inr [AccessPoint (Some ''arn:c''), AccessPoint (Some ''arn:d'')]]),
      ListMultiRegionAccessPoints =
        (\<lambda>accountID.
           [Inr [MultiRegionAccessPointReport (Some ''m1'')],
            Inr [MultiRegionAccessPointReport (Some ''m2'')]]),
      ListAccessPointsForObjectLambda =
        (\<lambda>accountID. [Inr [ObjectLambdaAccessPoint (Some ''o1''), ObjectLambdaAccessPoint None]]),
      ListStorageLensConfigurations =
        (\<lambda>accountID.
           [Inr [ListStorageLensConfigurationEntry (Some ''lens1'')],
            Inr [ListStorageLensConfigurationEntry (Some ''default-account-dashboard''),
                 ListStorageLensConfigurationEntry (Some ''lens2'')]]),
      AccessPointCreateResourceID =
        (\<lambda>arn. if arn = [] then Inl (Opaque ''invalid ARN'') else Inr arn),
      MultiRegionAccessPointCreateResourceID = (\<lambda>accountID name. accountID @ CHR '':'' # name),
      ObjectLambdaAccessPointCreateResourceID = (\<lambda>accountID name. accountID @ CHR '':'' # name),
      StorageLensConfigurationCreateResourceID = (\<lambda>accountID name. accountID @ CHR '':'' # name),
      Delete = (\<lambda>r b. (None, Suc b))\<rparr>"

text \<open>The same account when the deletion of the access point \<open>arn:b\<close> fails.\<close>

definition env_del :: "nat env" where
  "env_del =
     env0\<lparr>Delete :=
       (\<lambda>r b. (if r = NewSweepResource resourceAccessPoint ''arn:b'' client0
                then Some (Opaque ''AccessDenied'') else None, Suc b))\<rparr>"

text \<open>The same account when the second page of every listing fails with an error that the
  classifier does not skip.\<close>

definition env_fatal :: "nat env" where
  "env_fatal =
     env0\<lparr>ListAccessPoints :=
            (\<lambda>accountID. [Inr [AccessPoint (Some ''arn:a''), AccessPoint None],
                           Inl (Opaque ''RequestTimeout'')]),
          ListMultiRegionAccessPoints :=
            (\<lambda>accountID. [Inr [MultiRegionAccessPointReport (Some ''m1'')],
                           Inl (Opaque ''RequestTimeout'')]),
          ListAccessPointsForObjectLambda :=
            (\<lambda>accountID. [Inr [ObjectLambdaAccessPoint (Some ''o1'')],
                           Inl (Opaque ''RequestTimeout'')]),
          ListStorageLensConfigurations :=
            (\<lambda>accountID. [Inr [ListStorageLensConfigurationEntry (Some ''lens1'')],
                           Inl (Opaque ''RequestTimeout'')])\<rparr>"

text \<open>The same account when the second page of every listing fails with the error that
  the classifier skips.\<close>

definition env_skip :: "nat env" where
  "env_skip =
     env0\<lparr>ListAccessPoints :=
            (\<lambda>accountID. [Inr [AccessPoint (Some ''arn:a''), AccessPoint None],
                           Inl (Opaque ''UnsupportedOperation'')]),
          ListMultiRegionAccessPoints :=
            (\<lambda>accountID. [Inr [MultiRegionAccessPointReport (Some ''m1'')],
                           Inl (Opaque ''UnsupportedOperation'')]),
          ListAccessPointsForObjectLambda :=
            (\<lambda>accountID. [Inr [ObjectLambdaAccessPoint (Some ''o1'')],
                           Inl (Opaque ''UnsupportedOperation'')]),
          ListStorageLensConfigurations :=
            (\<lambda>accountID. [Inr [ListStorageLensConfigurationEntry (Some ''lens1'')],
                           Inl (Opaque ''UnsupportedOperation'')])\<rparr>"

section \<open>Basic facts\<close>

lemma events_emit: "events (emit e w) = events w @ [e]"
  by (simp add: emit_def)

lemma backend_emit: "backend (emit e w) = backend w"
  by (simp add: emit_def)

lemma Appends_Nil: "Appends m [] = m"
  by (simp add: Appends_def)

lemma Appends_Cons: "Appends m (e # es) = Appends (Append m e) es"
  by (simp add: Appends_def)

lemma Appends_append: "Appends (Appends m es) es' = Appends m (es @ es')"
  by (simp add: Appends_def)

lemma Appends_Some: "Appends (Some xs) es = Some (xs @ es)"
  by (induction es arbitrary: xs) (simp_all add: Appends_def Append_def)

lemma Appends_None: "Appends None es = (if es = [] then None else Some es)"
  by (cases es) (simp_all add: Appends_Cons Appends_Nil Append_def Appends_Some)

lemma ErrorOrNil_Appends_None:
  "ErrorOrNil (Appends None es) = (if es = [] then None else Some (MultiError es))"
  by (simp add: Appends_None ErrorOrNil_def)

lemma ErrorOrNil_Append_Appends_None:
  "ErrorOrNil (Append (Appends None es) err) = Some (MultiError (es @ [err]))"
  by (simp add: Appends_None ErrorOrNil_def Append_def)

section \<open>The loops, in closed form\<close>

lemma accessPointSweepables_append:
  "accessPointSweepables env client (xs @ ys) =
     accessPointSweepables env client xs @ accessPointSweepables env client ys"
  by (induction xs) (simp_all split: sum.splits)

lemma accessPointBuildErrors_append:
  "accessPointBuildErrors env (xs @ ys) =
     accessPointBuildErrors env xs @ accessPointBuildErrors env ys"
  by (induction xs) (simp_all split: sum.splits)


lemma AccessPointList_range_eq:
  "AccessPointList_range env client vs rs errs =
     (rs @ accessPointSweepables env client vs, Appends errs (accessPointBuildErrors env vs))"
  by (induction vs arbitrary: rs errs) (simp_all add: Appends_Nil Appends_Cons split: sum.splits)

lemma AccessPoints_pages_prefix:
  "AccessPoints_pages env region client (map Inr pgs @ rest) rs errs w =
     AccessPoints_pages env region client rest
       (rs @ accessPointSweepables env client (concat pgs))
       (Appends errs (accessPointBuildErrors env (concat pgs)))
       (w\<lparr>events := events w @ replicate (length pgs) (NextPage resourceAccessPoint)\<rparr>)"
proof (induction pgs arbitrary: rs errs w)
  case Nil
  then show ?case by (simp add: Appends_Nil)
next
  case (Cons pg pgs)
  show ?case
    by (simp add: Cons.IH AccessPointList_range_eq accessPointSweepables_append
        accessPointBuildErrors_append Appends_append emit_def replicate_append_same)
qed

lemma MultiRegionAccessPoints_range_eq:
  "MultiRegionAccessPoints_range env (AccountID client) client vs rs =
     rs @ map (multiRegionAccessPointSweepable env client) vs"
  by (induction vs arbitrary: rs) (simp_all add: multiRegionAccessPointSweepable_def)

lemma MultiRegionAccessPoints_pages_prefix:
  "MultiRegionAccessPoints_pages env region client (map Inr pgs @ rest) rs w =
     MultiRegionAccessPoints_pages env region client rest
       (rs @ map (multiRegionAccessPointSweepable env client) (concat pgs))
       (w\<lparr>events := events w @ replicate (length pgs) (NextPage resourceMultiRegionAccessPoint)\<rparr>)"
proof (induction pgs arbitrary: rs w)
  case Nil
  then show ?case by simp
next
  case (Cons pg pgs)
  show ?case
    by (simp add: Cons.IH MultiRegionAccessPoints_range_eq emit_def replicate_append_same)
qed

lemma ObjectLambdaAccessPointList_range_eq:
  "ObjectLambdaAccessPointList_range env (AccountID client) client vs rs =
     rs @ map (objectLambdaAccessPointSweepable env client) vs"
  by (induction vs arbitrary: rs) (simp_all add: objectLambdaAccessPointSweepable_def)

lemma ObjectLambdaAccessPoints_pages_prefix:
  "ObjectLambdaAccessPoints_pages env region client (map Inr pgs @ rest) rs w =
     ObjectLambdaAccessPoints_pages env region client rest
       (rs @ map (objectLambdaAccessPointSweepable env client) (concat pgs))
       (w\<lparr>events := events w @ replicate (length pgs) (NextPage resourceObjectLambdaAccessPoint)\<rparr>)"
proof (induction pgs arbitrary: rs w)
  case Nil
  then show ?case by simp
next
  case (Cons pg pgs)
  show ?case
    by (simp add: Cons.IH ObjectLambdaAccessPointList_range_eq emit_def replicate_append_same)
qed

lemma StorageLensConfigurationList_range_eq:
  "StorageLensConfigurationList_range env (AccountID client) client vs rs =
     rs @ map (storageLensConfigurationSweepable env client)
            (filter (\<lambda>v. \<not> isDefaultDashboard v) vs)"
  by (induction vs arbitrary: rs)
    (simp_all add: storageLensConfigurationSweepable_def isDefaultDashboard_def Let_def)

lemma StorageLensConfigurations_pages_prefix:
  "StorageLensConfigurations_pages env region client (map Inr pgs @ rest) rs w =
     StorageLensConfigurations_pages env region client rest
       (rs @ map (storageLensConfigurationSweepable env client)
               (filter (\<lambda>v. \<not> isDefaultDashboard v) (concat pgs)))
       (w\<lparr>events := events w @ replicate (length pgs) (NextPage resourceStorageLensConfiguration)\<rparr>)"
proof (induction pgs arbitrary: rs w)
  case Nil
  then show ?case by simp
next
  case (Cons pg pgs)
  show ?case
    by (simp add: Cons.IH StorageLensConfigurationList_range_eq emit_def replicate_append_same)
qed

section \<open>The orchestrator, in closed form\<close>

lemma fst_SweepOrchestrator_range:
  "fst (SweepOrchestrator_range env rs errs w) =
     errs @ failures (deletion_outcomes env rs (backend w))"
  by (induction rs arbitrary: errs w) (auto split: prod.splits option.splits)

lemma SweepOrchestrator_range_events:
  "events (snd (SweepOrchestrator_range env rs errs w)) = events w @ map DeleteCall rs"
  by (induction rs arbitrary: errs w) (auto split: prod.splits option.splits)

lemma length_deletion_outcomes: "length (deletion_outcomes env rs b) = length rs"
  by (induction rs arbitrary: b) (simp_all split: prod.splits)

lemma length_failures: "length (failures os) = length (filter (\<lambda>out. out \<noteq> None) os)"
  by (induction os rule: failures.induct) simp_all

lemma failures_Nil_iff: "failures os = [] \<longleftrightarrow> list_all (\<lambda>out. out = None) os"
  by (induction os rule: failures.induct) simp_all

lemma fst_SweepOrchestrator:
  "fst (SweepOrchestrator env rs w) =
     (if failures (deletion_outcomes env rs (backend w)) = [] then None
      else Some (MultiError (failures (deletion_outcomes env rs (backend w)))))"
  using fst_SweepOrchestrator_range [of env rs "[]" w]
  by (auto simp: SweepOrchestrator_def split: prod.splits)

lemma events_SweepOrchestrator:
  "events (snd (SweepOrchestrator env rs w)) = events w @ map DeleteCall rs"
  using SweepOrchestrator_range_events [of env rs "[]" w]
  by (auto simp: SweepOrchestrator_def split: prod.splits)

section \<open>The sweepers, when every page is fetched and when a page fails\<close>

lemmas pages_all =
  AccessPoints_pages_prefix [where rest = "[]", simplified]
  MultiRegionAccessPoints_pages_prefix [where rest = "[]", simplified]
  ObjectLambdaAccessPoints_pages_prefix [where rest = "[]", simplified]
  StorageLensConfigurations_pages_prefix [where rest = "[]", simplified]

lemma sweepAccessPoints_page_error:
  assumes "SharedRegionalSweepClient env region = Inr client"
    and "ListAccessPoints env (AccountID client) = map Inr pgs @ Inl err # rest"
  shows "sweepAccessPoints env region w =
     (if SkipSweepError env err
      then (ErrorOrNil (Appends None (accessPointBuildErrors env (concat pgs))),
            w\<lparr>events := events w @ GetClient region #
                 replicate (Suc (length pgs)) (NextPage resourceAccessPoint) @
                 [Printf ''[WARN] Skipping S3 Access Point sweep for %s: %s''
                    [Str region, Err err]]\<rparr>)
      else (Some (ErrorfW ''error listing S3 Access Points (%s): %w'' region err),
            w\<lparr>events := events w @ GetClient region #
                 replicate (Suc (length pgs)) (NextPage resourceAccessPoint)\<rparr>))"
  using assms
  by (simp add: sweepAccessPoints_def AccessPoints_pages_prefix emit_def
      replicate_append_same)

lemma sweepAccessPoints_ok:
  assumes "SharedRegionalSweepClient env region = Inr client"
    and "ListAccessPoints env (AccountID client) = map Inr pgs"
  shows "sweepAccessPoints env region w =
     (case SweepOrchestrator env (accessPointSweepables env client (concat pgs))
             (w\<lparr>events := events w @ GetClient region #
                  replicate (length pgs) (NextPage resourceAccessPoint)\<rparr>) of
        (None, w2) \<Rightarrow> (ErrorOrNil (Appends None (accessPointBuildErrors env (concat pgs))), w2)
      | (Some err, w2) \<Rightarrow>
          (ErrorOrNil
             (Append (Appends None (accessPointBuildErrors env (concat pgs)))
                (ErrorfW ''error sweeping S3 Access Points (%s): %w'' region err)),
           w2))"
  using assms
  by (simp add: sweepAccessPoints_def pages_all emit_def)

lemma sweepMultiRegionAccessPoints_page_error:
  assumes "SharedRegionalSweepClient env USWest2RegionID = Inr client"
    and "ListMultiRegionAccessPoints env (AccountID client) = map Inr pgs @ Inl err # rest"
  shows "sweepMultiRegionAccessPoints env USWest2RegionID w =
     (if SkipSweepError env err
      then (None,
            w\<lparr>events := events w @ GetClient USWest2RegionID #
                 replicate (Suc (length pgs)) (NextPage resourceMultiRegionAccessPoint) @
                 [Printf ''[WARN] Skipping S3 Multi-Region Access Point sweep for %s: %s''
                    [Str USWest2RegionID, Err err]]\<rparr>)
      else (Some (ErrorfW ''error listing S3 Multi-Region Access Points (%s): %w'' USWest2RegionID err),
            w\<lparr>events := events w @ GetClient USWest2RegionID #
                 replicate (Suc (length pgs)) (NextPage resourceMultiRegionAccessPoint)\<rparr>))"
  using assms
  by (simp add: sweepMultiRegionAccessPoints_def MultiRegionAccessPoints_pages_prefix emit_def
      replicate_append_same)

lemma sweepMultiRegionAccessPoints_ok:
  assumes "SharedRegionalSweepClient env USWest2RegionID = Inr client"
    and "ListMultiRegionAccessPoints env (AccountID client) = map Inr pgs"
  shows "sweepMultiRegionAccessPoints env USWest2RegionID w =
     (case SweepOrchestrator env (map (multiRegionAccessPointSweepable env client) (concat pgs))
             (w\<lparr>events := events w @ GetClient USWest2RegionID #
                  replicate (length pgs) (NextPage resourceMultiRegionAccessPoint)\<rparr>) of
        (None, w2) \<Rightarrow> (None, w2)
      | (Some err, w2) \<Rightarrow>
          (Some (ErrorfW ''error sweeping S3 Multi-Region Access Points (%s): %w'' USWest2RegionID err),
           w2))"
  using assms
  by (simp add: sweepMultiRegionAccessPoints_def pages_all emit_def)

lemma sweepObjectLambdaAccessPoints_page_error:
  assumes "SharedRegionalSweepClient env region = Inr client"
    and "ListAccessPointsForObjectLambda env (AccountID client) = map Inr pgs @ Inl err # rest"
  shows "sweepObjectLambdaAccessPoints env region w =
     (if SkipSweepError env err
      then (None,
            w\<lparr>events := events w @ GetClient region #
                 replicate (Suc (length pgs)) (NextPage resourceObjectLambdaAccessPoint) @
                 [Printf ''[WARN] Skipping S3 Object Lambda Access Point sweep for %s: %s''
                    [Str region, Err err]]\<rparr>)
      else (Some (ErrorfW ''error listing S3 Object Lambda Access Points (%s): %w'' region err),
            w\<lparr>events := events w @ GetClient region #
                 replicate (Suc (length pgs)) (NextPage resourceObjectLambdaAccessPoint)\<rparr>))"
  using assms
  by (simp add: sweepObjectLambdaAccessPoints_def ObjectLambdaAccessPoints_pages_prefix emit_def
      replicate_append_same)

lemma sweepObjectLambdaAccessPoints_ok:
  assumes "SharedRegionalSweepClient env region = Inr client"
    and "ListAccessPointsForObjectLambda env (AccountID client) = map Inr pgs"
  shows "sweepObjectLambdaAccessPoints env region w =
     (case SweepOrchestrator env (map (objectLambdaAccessPointSweepable env client) (concat pgs))
             (w\<lparr>events := events w @ GetClient region #
                  replicate (length pgs) (NextPage resourceObjectLambdaAccessPoint)\<rparr>) of
        (None, w2) \<Rightarrow> (None, w2)
      | (Some err, w2) \<Rightarrow>
          (Some (ErrorfW ''error sweeping S3 Object Lambda Access Points (%s): %w'' region err),
           w2))"
  using assms
  by (simp add: sweepObjectLambdaAccessPoints_def pages_all emit_def)

lemma sweepStorageLensConfigurations_page_error:
  assumes "region \<noteq> USGovEast1RegionID" and "region \<noteq> USGovWest1RegionID"
    and "SharedRegionalSweepClient env region = Inr client"
    and "ListStorageLensConfigurations env (AccountID client) = map Inr pgs @ Inl err # rest"
  shows "sweepStorageLensConfigurations env region w =
     (if SkipSweepError env err
      then (None,
            w\<lparr>events := events w @ GetClient region #
                 replicate (Suc (length pgs)) (NextPage resourceStorageLensConfiguration) @
                 [Printf ''[WARN] Skipping S3 Storage Lens Configuration sweep for %s: %s''
                    [Str region, Err err]]\<rparr>)
      else (Some (ErrorfW ''error listing S3 Storage Lens Configurations (%s): %w'' region err),
            w\<lparr>events := events w @ GetClient region #
                 replicate (Suc (length pgs)) (NextPage resourceStorageLensConfiguration)\<rparr>))"
  using assms
  by (simp add: sweepStorageLensConfigurations_def StorageLensConfigurations_pages_prefix
      emit_def replicate_append_same)

lemma sweepStorageLensConfigurations_ok:
  assumes "region \<noteq> USGovEast1RegionID" and "region \<noteq> USGovWest1RegionID"
    and "SharedRegionalSweepClient env region = Inr client"
    and "ListStorageLensConfigurations env (AccountID client) = map Inr pgs"
  shows "sweepStorageLensConfigurations env region w =
     (case SweepOrchestrator env
             (map (storageLensConfigurationSweepable env client)
                (filter (\<lambda>v. \<not> isDefaultDashboard v) (concat pgs)))
             (w\<lparr>events := events w @ GetClient region #
                  replicate (length pgs) (NextPage resourceStorageLensConfiguration)\<rparr>) of
        (None, w2) \<Rightarrow> (None, w2)
      | (Some err, w2) \<Rightarrow>
          (Some (ErrorfW ''error sweeping S3 Storage Lens Configurations (%s): %w'' region err),
           w2))"
  using assms
  by (simp add: sweepStorageLensConfigurations_def pages_all emit_def)

section \<open>Deletions among the events\<close>

lemma deletions_append: "deletions (xs @ ys) = deletions xs @ deletions ys"
  by (induction xs rule: deletions.induct) simp_all

lemma deletions_replicate_NextPage: "deletions (replicate n (NextPage k)) = []"
  by (induction n) simp_all

lemma deletions_map_DeleteCall: "deletions (map DeleteCall rs) = rs"
  by (induction rs) simp_all


lemma deletions_SweepOrchestrator:
  "deletions (events (snd (SweepOrchestrator env rs w))) = deletions (events w) @ rs"
  by (simp add: events_SweepOrchestrator deletions_append deletions_map_DeleteCall)

lemma StorageLensConfigurationList_range_skip:
  "isDefaultDashboard v \<Longrightarrow>
     StorageLensConfigurationList_range env (AccountID client) client (vs1 @ v # vs2) rs =
       StorageLensConfigurationList_range env (AccountID client) client (vs1 @ vs2) rs"
  by (simp add: StorageLensConfigurationList_range_eq)

section \<open>What a sweeper without build errors can return\<close>

lemma MultiRegionAccessPoints_pages_return:
  "MultiRegionAccessPoints_pages env region client ps rs w = (Inl ret, w') \<Longrightarrow>
     ret = None \<or>
     (\<exists>err. Inl err \<in> set ps \<and> \<not> SkipSweepError env err \<and>
        ret = Some (ErrorfW ''error listing S3 Multi-Region Access Points (%s): %w'' region err))"
  by (induction ps arbitrary: rs w) (auto split: sum.splits if_splits)

lemma ObjectLambdaAccessPoints_pages_return:
  "ObjectLambdaAccessPoints_pages env region client ps rs w = (Inl ret, w') \<Longrightarrow>
     ret = None \<or>
     (\<exists>err. Inl err \<in> set ps \<and> \<not> SkipSweepError env err \<and>
        ret = Some (ErrorfW ''error listing S3 Object Lambda Access Points (%s): %w'' region err))"
  by (induction ps arbitrary: rs w) (auto split: sum.splits if_splits)

lemma sweepMultiRegionAccessPoints_failures:
  "fst (sweepMultiRegionAccessPoints env region w) = Some e \<Longrightarrow>
     (\<exists>err. SharedRegionalSweepClient env region = Inl err \<and>
        e = ErrorfS ''error getting client: %s'' err) \<or>
     (\<exists>client err. SharedRegionalSweepClient env region = Inr client \<and>
        Inl err \<in> set (ListMultiRegionAccessPoints env (AccountID client)) \<and>
        \<not> SkipSweepError env err \<and>
        e = ErrorfW ''error listing S3 Multi-Region Access Points (%s): %w'' region err) \<or>
     (\<exists>rs w1 err. fst (SweepOrchestrator env rs w1) = Some err \<and>
        e = ErrorfW ''error sweeping S3 Multi-Region Access Points (%s): %w'' region err)"
  unfolding sweepMultiRegionAccessPoints_def
  by (auto split: if_splits sum.splits prod.splits option.splits
      dest!: MultiRegionAccessPoints_pages_return) (metis fst_conv)

lemma sweepObjectLambdaAccessPoints_failures:
  "fst (sweepObjectLambdaAccessPoints env region w) = Some e \<Longrightarrow>
     (\<exists>err. SharedRegionalSweepClient env region = Inl err \<and>
        e = ErrorfS ''error getting client: %s'' err) \<or>
     (\<exists>client err. SharedRegionalSweepClient env region = Inr client \<and>
        Inl err \<in> set (ListAccessPointsForObjectLambda env (AccountID client)) \<and>
        \<not> SkipSweepError env err \<and>
        e = ErrorfW ''error listing S3 Object Lambda Access Points (%s): %w'' region err) \<or>
     (\<exists>rs w1 err. fst (SweepOrchestrator env rs w1) = Some err \<and>
        e = ErrorfW ''error sweeping S3 Object Lambda Access Points (%s): %w'' region err)"
  unfolding sweepObjectLambdaAccessPoints_def
  by (auto split: if_splits sum.splits prod.splits option.splits
      dest!: ObjectLambdaAccessPoints_pages_return) (metis fst_conv)

section \<open>Splitting an encoded key\<close>

lemma split_at_component:
  "sep \<notin> set k \<Longrightarrow> split_at sep cur (k @ rest) = split_at sep (cur @ k) rest"
  by (induction k arbitrary: cur) auto

lemma split_at_encode:
  "ks \<noteq> [] \<Longrightarrow> list_all (\<lambda>k. sep \<notin> set k) ks \<Longrightarrow> split_at sep [] (encode sep ks) = ks"
proof (induction sep ks rule: encode.induct)
  case (1 sep)
  then show ?case by simp
next
  case (2 sep k)
  then show ?case
    using split_at_component [of sep k "[]" "[]"] by simp
next
  case (3 sep k k' ks)
  then show ?case
    using split_at_component [of sep k "[]" "sep # encode sep (k' # ks)"] by simp
qed

section \<open>The harness keeps the dependency order\<close>

lemma init_eq:
  "init =
     Some [(''aws_s3_access_point'',
            \<lparr>Name = ''aws_s3_access_point'', F = sweepAccessPoints,
             Dependencies = [''aws_s3control_object_lambda_access_point'']\<rparr>),
           (''aws_s3control_multi_region_access_point'',
            \<lparr>Name = ''aws_s3control_multi_region_access_point'',
             F = sweepMultiRegionAccessPoints, Dependencies = []\<rparr>),
           (''aws_s3control_object_lambda_access_point'',
            \<lparr>Name = ''aws_s3control_object_lambda_access_point'',
             F = sweepObjectLambdaAccessPoints, Dependencies = []\<rparr>),
           (''aws_s3control_storage_lens_configuration'',
            \<lparr>Name = ''aws_s3control_storage_lens_configuration'',
             F = sweepStorageLensConfigurations, Dependencies = []\<rparr>)]"
  by (simp add: init_def AddTestSweepers_def)

lemma before_append:
  "before a b xs \<Longrightarrow> before a b (xs @ ys)"
  by (auto simp: before_def takeWhile_append1)

lemma before_snoc:
  "a \<in> set xs \<Longrightarrow> b \<notin> set xs \<Longrightarrow> before a b (xs @ [b])"
proof -
  assume a: "a \<in> set xs" and b: "b \<notin> set xs"
  have "\<And>x. x \<in> set xs \<Longrightarrow> x \<noteq> b"
    using b by blast
  then have "takeWhile (\<lambda>x. x \<noteq> b) (xs @ [b]) = xs"
    by (simp add: takeWhile_append2)
  with a show ?thesis
    by (simp add: before_def)
qed

lemma runSweeper_leaf:
  assumes "map_of reg name = Some s" and "Dependencies s = []"
    and "name \<noteq> ''aws_s3_access_point''" and "swept_in_order st"
  shows "\<exists>st'. runSweeper (Suc n) reg env region name st = Some st' \<and> swept_in_order st' \<and>
           set (swept st') = insert name (set (swept st))"
proof (cases "name \<in> set (swept st)")
  case True
  then have "runSweeper (Suc n) reg env region name st = Some st"
    by (simp add: swept_def)
  moreover have "set (swept st) = insert name (set (swept st))"
    using True by blast
  ultimately show ?thesis
    using assms(4) by blast
next
  case False
  obtain res w where f: "F s env region (world st) = (res, w)"
    by (cases "F s env region (world st)")
  let ?st' = "\<lparr>results = results st @ [(name, res)], world = w\<rparr>"
  have run: "runSweeper (Suc n) reg env region name st = Some ?st'"
    using False assms f by (simp add: swept_def)
  have nm: "swept ?st' = swept st @ [name]"
    by (simp add: swept_def)
  have "swept_in_order ?st'"
    using False assms unfolding swept_in_order_def nm by (auto intro: before_append)
  moreover have "set (swept ?st') = insert name (set (swept st))"
    unfolding nm by simp
  ultimately show ?thesis
    using run by blast
qed

lemma runSweeper_step:
  assumes ap: "map_of reg ''aws_s3_access_point'' = Some sa"
      "Dependencies sa = [''aws_s3control_object_lambda_access_point'']"
    and ol: "map_of reg ''aws_s3control_object_lambda_access_point'' = Some so"
    and leaf: "\<forall>name s. name \<noteq> ''aws_s3_access_point'' \<longrightarrow> map_of reg name = Some s \<longrightarrow>
                Dependencies s = []"
    and ord: "swept_in_order st"
  shows "\<exists>st'. runSweeper (Suc (Suc n)) reg env region name st = Some st' \<and> swept_in_order st' \<and>
           set (swept st) \<subseteq> set (swept st') \<and>
           (name \<in> dom (map_of reg) \<longrightarrow> name \<in> set (swept st'))"
proof (cases "name = ''aws_s3_access_point''")
  case True
  show ?thesis
  proof (cases "''aws_s3_access_point'' \<in> set (swept st)")
    case True
    then have "runSweeper (Suc (Suc n)) reg env region name st = Some st"
      using \<open>name = ''aws_s3_access_point''\<close> by (simp add: swept_def)
    with True \<open>name = ''aws_s3_access_point''\<close> ord show ?thesis
      by blast
  next
    case False
    have "Dependencies so = []"
      using leaf [rule_format, of "''aws_s3control_object_lambda_access_point''" so] ol by simp
    with runSweeper_leaf [OF ol _ _ ord, where n = n and env = env and region = region]
    obtain st1 where
      st1: "runSweeper (Suc n) reg env region ''aws_s3control_object_lambda_access_point'' st =
              Some st1"
        "swept_in_order st1"
        "set (swept st1) = insert ''aws_s3control_object_lambda_access_point'' (set (swept st))"
      by auto
    obtain res w where f: "F sa env region (world st1) = (res, w)"
      by (cases "F sa env region (world st1)")
    let ?st' = "\<lparr>results = results st1 @ [(''aws_s3_access_point'', res)], world = w\<rparr>"
    have run: "runSweeper (Suc (Suc n)) reg env region ''aws_s3_access_point'' st = Some ?st'"
      using False ap st1(1) f by (simp add: swept_def)
    have nm: "swept ?st' = swept st1 @ [''aws_s3_access_point'']"
      by (simp add: swept_def)
    have notin: "''aws_s3_access_point'' \<notin> set (swept st1)"
      using False st1(3) by simp
    have "distinct (swept ?st')"
      using st1(2) notin unfolding nm swept_in_order_def by simp
    moreover have "before ''aws_s3control_object_lambda_access_point'' ''aws_s3_access_point''
        (swept ?st')"
      unfolding nm using st1(3) notin by (intro before_snoc) simp_all
    ultimately have "swept_in_order ?st'"
      by (simp add: swept_in_order_def)
    moreover have "set (swept st) \<subseteq> set (swept ?st')"
      unfolding nm using st1(3) by auto
    moreover have "''aws_s3_access_point'' \<in> set (swept ?st')"
      unfolding nm by simp
    ultimately show ?thesis
      using run True by blast
  qed
next
  case False
  show ?thesis
  proof (cases "map_of reg name")
    case None
    then have "runSweeper (Suc (Suc n)) reg env region name st = Some st"
      by simp
    moreover have "name \<notin> dom (map_of reg)"
      using None by (simp add: domIff)
    ultimately show ?thesis
      using ord by blast
  next
    case (Some s)
    from runSweeper_leaf [OF Some leaf [rule_format, OF False Some] False ord,
        where n = "Suc n" and env = env and region = region]
    obtain st' where "runSweeper (Suc (Suc n)) reg env region name st = Some st'"
      "swept_in_order st'" "set (swept st') = insert name (set (swept st))"
      by blast
    then show ?thesis
      by blast
  qed
qed

lemma runSweeperList_in_order:
  assumes ap: "map_of reg ''aws_s3_access_point'' = Some sa"
      "Dependencies sa = [''aws_s3control_object_lambda_access_point'']"
    and ol: "map_of reg ''aws_s3control_object_lambda_access_point'' = Some so"
    and leaf: "\<forall>name s. name \<noteq> ''aws_s3_access_point'' \<longrightarrow> map_of reg name = Some s \<longrightarrow>
                Dependencies s = []"
  shows "swept_in_order st \<Longrightarrow>
    \<exists>st'. runSweeperList (Suc (Suc n)) reg env region order st = Some st' \<and> swept_in_order st' \<and>
          set (swept st) \<subseteq> set (swept st') \<and>
          (\<forall>name \<in> set order. name \<in> dom (map_of reg) \<longrightarrow> name \<in> set (swept st'))"
proof (induction order arbitrary: st)
  case Nil
  then show ?case by simp
next
  case (Cons name order)
  from runSweeper_step [OF ap ol leaf Cons.prems,
      where n = n and env = env and region = region and name = name]
  obtain st1 where
    st1: "runSweeper (Suc (Suc n)) reg env region name st = Some st1" "swept_in_order st1"
      "set (swept st) \<subseteq> set (swept st1)"
      "name \<in> dom (map_of reg) \<longrightarrow> name \<in> set (swept st1)"
    by blast
  from Cons.IH [OF st1(2)]
  obtain st' where
    st': "runSweeperList (Suc (Suc n)) reg env region order st1 = Some st'" "swept_in_order st'"
      "set (swept st1) \<subseteq> set (swept st')"
      "\<forall>name \<in> set order. name \<in> dom (map_of reg) \<longrightarrow> name \<in> set (swept st')"
    by blast
  have "runSweeperList (Suc (Suc n)) reg env region (name # order) st = Some st'"
    using st1(1) st'(1) by simp
  moreover have "set (swept st) \<subseteq> set (swept st')"
    using st1(3) st'(3) by blast
  moreover have "\<forall>x \<in> set (name # order). x \<in> dom (map_of reg) \<longrightarrow> x \<in> set (swept st')"
    using st1(4) st'(3) st'(4) by auto
  ultimately show ?case
    using st'(2) by blast
qed

section \<open>Runs of the sweepers without build errors\<close>

lemma pages_cases:
  fixes ps :: "('e + 'a) list"
  shows "(\<exists>pgs. ps = map Inr pgs) \<or> (\<exists>pgs err rest. ps = map Inr pgs @ Inl err # rest)"
proof (induction ps)
  case Nil
  then show ?case by simp
next
  case (Cons p ps)
  show ?case
  proof (cases p)
    case (Inl err)
    then have "p # ps = map Inr [] @ Inl err # ps" by simp
    then show ?thesis by (intro disjI2 exI)
  next
    case (Inr pg)
    from Cons.IH show ?thesis
    proof (elim disjE exE)
      fix pgs assume "ps = map Inr pgs"
      then have "p # ps = map Inr (pg # pgs)" using Inr by simp
      then show ?thesis by (intro disjI1 exI)
    next
      fix pgs err rest assume "ps = map Inr pgs @ Inl err # rest"
      then have "p # ps = map Inr (pg # pgs) @ Inl err # rest" using Inr by simp
      then show ?thesis by (intro disjI2 exI)
    qed
  qed
qed

lemma sweepMultiRegionAccessPoints_run:
  assumes "SharedRegionalSweepClient env USWest2RegionID = Inr client"
    and "ListMultiRegionAccessPoints env (AccountID client) = map Inr pgs"
  shows "deletions (events (snd (sweepMultiRegionAccessPoints env USWest2RegionID w))) =
           deletions (events w) @ map (multiRegionAccessPointSweepable env client) (concat pgs)"
proof -
  let ?rs = "map (multiRegionAccessPointSweepable env client) (concat pgs)"
  let ?w1 = "w\<lparr>events := events w @ GetClient USWest2RegionID #
               replicate (length pgs) (NextPage resourceMultiRegionAccessPoint)\<rparr>"
  have "snd (sweepMultiRegionAccessPoints env USWest2RegionID w) =
          snd (SweepOrchestrator env ?rs ?w1)"
    using assms by (simp add: sweepMultiRegionAccessPoints_ok split: prod.splits option.splits)
  then show ?thesis
    by (simp add: deletions_SweepOrchestrator deletions_append deletions_replicate_NextPage)
qed

lemma sweepObjectLambdaAccessPoints_run:
  assumes "SharedRegionalSweepClient env region = Inr client"
    and "ListAccessPointsForObjectLambda env (AccountID client) = map Inr pgs"
  shows "deletions (events (snd (sweepObjectLambdaAccessPoints env region w))) =
           deletions (events w) @ map (objectLambdaAccessPointSweepable env client) (concat pgs)"
proof -
  let ?rs = "map (objectLambdaAccessPointSweepable env client) (concat pgs)"
  let ?w1 = "w\<lparr>events := events w @ GetClient region #
               replicate (length pgs) (NextPage resourceObjectLambdaAccessPoint)\<rparr>"
  have "snd (sweepObjectLambdaAccessPoints env region w) =
          snd (SweepOrchestrator env ?rs ?w1)"
    using assms by (simp add: sweepObjectLambdaAccessPoints_ok split: prod.splits option.splits)
  then show ?thesis
    by (simp add: deletions_SweepOrchestrator deletions_append deletions_replicate_NextPage)
qed

lemma sweepMultiRegionAccessPoints_no_client:
  "SharedRegionalSweepClient env USWest2RegionID = Inl err \<Longrightarrow>
     sweepMultiRegionAccessPoints env USWest2RegionID w =
       (Some (ErrorfS ''error getting client: %s'' err),
        w\<lparr>events := events w @ [GetClient USWest2RegionID]\<rparr>)"
  by (simp add: sweepMultiRegionAccessPoints_def emit_def)

lemma sweepObjectLambdaAccessPoints_no_client:
  "SharedRegionalSweepClient env region = Inl err \<Longrightarrow>
     sweepObjectLambdaAccessPoints env region w =
       (Some (ErrorfS ''error getting client: %s'' err),
        w\<lparr>events := events w @ [GetClient region]\<rparr>)"
  by (simp add: sweepObjectLambdaAccessPoints_def emit_def)

section \<open>Region gating\<close>

text \<open>
  C4. In a region where a kind is not eligible (multi-region access points anywhere but
  us-west-2, Storage Lens configurations in us-gov-east-1 and us-gov-west-1) the sweeper
  returns nil and leaves the world as it found it but for one log line: the client is not
  acquired, no page is fetched, nothing is deleted, and the backend state is unchanged.
\<close>

theorem region_gating:
  "(region \<noteq> ''us-west-2'' \<longrightarrow>
      sweepMultiRegionAccessPoints env region w =
        (None,
         w\<lparr>events := events w @
            [Printf ''[WARN] Skipping S3 Multi-Region Access Point sweep for region: %s''
               [Str region]]\<rparr>)) \<and>
   (region = ''us-gov-east-1'' \<or> region = ''us-gov-west-1'' \<longrightarrow>
      sweepStorageLensConfigurations env region w =
        (None,
         w\<lparr>events := events w @
            [Printf ''[WARN] Skipping S3 Storage Lens Configuration sweep for region: %s''
               [Str region]]\<rparr>))"
  by (simp add: sweepMultiRegionAccessPoints_def sweepStorageLensConfigurations_def
      USWest2RegionID_def USGovEast1RegionID_def USGovWest1RegionID_def emit_def)

theorem region_gating_witness:
  "sweepMultiRegionAccessPoints env0 ''eu-west-1'' w0 =
     (None,
      \<lparr>events =
         [Printf ''[WARN] Skipping S3 Multi-Region Access Point sweep for region: %s''
            [Str ''eu-west-1'']],
       backend = 0\<rparr>) \<and>
   sweepStorageLensConfigurations env0 ''us-gov-east-1'' w0 =
     (None,
      \<lparr>events =
         [Printf ''[WARN] Skipping S3 Storage Lens Configuration sweep for region: %s''
            [Str ''us-gov-east-1'']],
       backend = 0\<rparr>)"
  using region_gating [of "''eu-west-1''" env0 w0] region_gating [of "''us-gov-east-1''" env0 w0]
  by (simp add: w0_def)

section \<open>The orchestrator attempts every deletion\<close>

text \<open>
  C2. For every sequence of sweep resources the orchestrator attempts the deletion of
  each one, in order, whatever the outcomes of the earlier ones. Each of the N deletions
  has an outcome; the value returned aggregates exactly the failures among these
  outcomes, as many as there are failing positions, and it is nil for the empty sequence
  and when every deletion succeeds.
\<close>

theorem orchestrator_no_early_abort:
  "events (snd (SweepOrchestrator env rs w)) = events w @ map DeleteCall rs \<and>
   length (deletion_outcomes env rs (backend w)) = length rs \<and>
   fst (SweepOrchestrator env rs w) =
     (if failures (deletion_outcomes env rs (backend w)) = [] then None
      else Some (MultiError (failures (deletion_outcomes env rs (backend w))))) \<and>
   length (failures (deletion_outcomes env rs (backend w))) =
     length (filter (\<lambda>out. out \<noteq> None) (deletion_outcomes env rs (backend w))) \<and>
   fst (SweepOrchestrator env [] w) = None \<and>
   (list_all (\<lambda>out. out = None) (deletion_outcomes env rs (backend w)) \<longrightarrow>
      fst (SweepOrchestrator env rs w) = None)"
  using fst_SweepOrchestrator [of env "[]" w]
  by (simp add: events_SweepOrchestrator length_deletion_outcomes fst_SweepOrchestrator
      length_failures failures_Nil_iff)

theorem orchestrator_no_early_abort_witness:
  "events (snd (SweepOrchestrator env_del
       [NewSweepResource resourceAccessPoint ''arn:a'' client0,
        NewSweepResource resourceAccessPoint ''arn:b'' client0,
        NewSweepResource resourceAccessPoint ''arn:c'' client0] w0)) =
     [DeleteCall (NewSweepResource resourceAccessPoint ''arn:a'' client0),
      DeleteCall (NewSweepResource resourceAccessPoint ''arn:b'' client0),
      DeleteCall (NewSweepResource resourceAccessPoint ''arn:c'' client0)] \<and>
   fst (SweepOrchestrator env_del
       [NewSweepResource resourceAccessPoint ''arn:a'' client0,
        NewSweepResource resourceAccessPoint ''arn:b'' client0,
        NewSweepResource resourceAccessPoint ''arn:c'' client0] w0) =
     Some (MultiError [Opaque ''AccessDenied'']) \<and>
   list_all (\<lambda>out. out = None)
     (deletion_outcomes env_del [NewSweepResource resourceAccessPoint ''arn:a'' client0]
        (backend w0)) \<and>
   fst (SweepOrchestrator env_del [NewSweepResource resourceAccessPoint ''arn:a'' client0] w0) =
     None"
  using orchestrator_no_early_abort [of env_del
      "[NewSweepResource resourceAccessPoint ''arn:a'' client0,
        NewSweepResource resourceAccessPoint ''arn:b'' client0,
        NewSweepResource resourceAccessPoint ''arn:c'' client0]" w0]
    orchestrator_no_early_abort [of env_del
      "[NewSweepResource resourceAccessPoint ''arn:a'' client0]" w0]
  by (simp add: env_del_def env0_def w0_def)

section \<open>A listing error that is not skipped\<close>

text \<open>
  C1, as the claim states it, fails. On the account \<open>env_fatal\<close> the first page of access
  points yields one sweep resource (and one build error), the second page fails with an
  error that the classifier does not skip. The sweeper returns the wrapped error after
  the two page fetches: the resource found on the first page is not deleted by the run.
\<close>

theorem fatal_listing_counterexample:
  "AccessPoints_pages env_fatal ''us-west-2'' client0
       [Inr [AccessPoint (Some ''arn:a''), AccessPoint None]] [] None w0 =
     (Inr ([NewSweepResource resourceAccessPoint ''arn:a'' client0],
           Some [Opaque ''invalid ARN'']),
      \<lparr>events = [NextPage resourceAccessPoint], backend = 0\<rparr>) \<and>
   \<not> SkipSweepError env_fatal (Opaque ''RequestTimeout'') \<and>
   sweepAccessPoints env_fatal ''us-west-2'' w0 =
     (Some (ErrorfW ''error listing S3 Access Points (%s): %w'' ''us-west-2''
              (Opaque ''RequestTimeout'')),
      \<lparr>events = [GetClient ''us-west-2'', NextPage resourceAccessPoint,
                 NextPage resourceAccessPoint],
       backend = 0\<rparr>) \<and>
   DeleteCall (NewSweepResource resourceAccessPoint ''arn:a'' client0) \<notin>
     set (events (snd (sweepAccessPoints env_fatal ''us-west-2'' w0)))"
  by (simp add: sweepAccessPoints_def env_fatal_def env0_def w0_def client0_def emit_def
      ToString_def Append_def)

text \<open>
  C1, amended. When a page fetch fails with an error that the classifier does not skip,
  each of the four sweepers returns the wrapped error at once. The orchestrator is not
  called: the run adds no deletion to the events and leaves the backend state as it was,
  so the resources found on the earlier pages are not deleted by that run.
\<close>

theorem fatal_listing_returns_without_sweeping:
  assumes "SharedRegionalSweepClient env region = Inr client"
    and "\<not> SkipSweepError env err"
  shows
   "(ListAccessPoints env (AccountID client) = map Inr pgs1 @ Inl err # rest1 \<longrightarrow>
       fst (sweepAccessPoints env region w) =
         Some (ErrorfW ''error listing S3 Access Points (%s): %w'' region err) \<and>
       deletions (events (snd (sweepAccessPoints env region w))) = deletions (events w) \<and>
       backend (snd (sweepAccessPoints env region w)) = backend w) \<and>
    (region = ''us-west-2'' \<and>
     ListMultiRegionAccessPoints env (AccountID client) = map Inr pgs2 @ Inl err # rest2 \<longrightarrow>
       fst (sweepMultiRegionAccessPoints env region w) =
         Some (ErrorfW ''error listing S3 Multi-Region Access Points (%s): %w'' region err) \<and>
       deletions (events (snd (sweepMultiRegionAccessPoints env region w))) =
         deletions (events w) \<and>
       backend (snd (sweepMultiRegionAccessPoints env region w)) = backend w) \<and>
    (ListAccessPointsForObjectLambda env (AccountID client) = map Inr pgs3 @ Inl err # rest3 \<longrightarrow>
       fst (sweepObjectLambdaAccessPoints env region w) =
         Some (ErrorfW ''error listing S3 Object Lambda Access Points (%s): %w'' region err) \<and>
       deletions (events (snd (sweepObjectLambdaAccessPoints env region w))) =
         deletions (events w) \<and>
       backend (snd (sweepObjectLambdaAccessPoints env region w)) = backend w) \<and>
    (region \<noteq> ''us-gov-east-1'' \<and> region \<noteq> ''us-gov-west-1'' \<and>
     ListStorageLensConfigurations env (AccountID client) = map Inr pgs4 @ Inl err # rest4 \<longrightarrow>
       fst (sweepStorageLensConfigurations env region w) =
         Some (ErrorfW ''error listing S3 Storage Lens Configurations (%s): %w'' region err) \<and>
       deletions (events (snd (sweepStorageLensConfigurations env region w))) =
         deletions (events w) \<and>
       backend (snd (sweepStorageLensConfigurations env region w)) = backend w)"
proof -
  have ap: "ListAccessPoints env (AccountID client) = map Inr pgs1 @ Inl err # rest1 \<Longrightarrow>
       fst (sweepAccessPoints env region w) =
         Some (ErrorfW ''error listing S3 Access Points (%s): %w'' region err) \<and>
       deletions (events (snd (sweepAccessPoints env region w))) = deletions (events w) \<and>
       backend (snd (sweepAccessPoints env region w)) = backend w"
    using assms
    by (simp add: sweepAccessPoints_page_error deletions_append deletions_replicate_NextPage)
  have mrap: "region = ''us-west-2'' \<Longrightarrow>
     ListMultiRegionAccessPoints env (AccountID client) = map Inr pgs2 @ Inl err # rest2 \<Longrightarrow>
       fst (sweepMultiRegionAccessPoints env region w) =
         Some (ErrorfW ''error listing S3 Multi-Region Access Points (%s): %w'' region err) \<and>
       deletions (events (snd (sweepMultiRegionAccessPoints env region w))) =
         deletions (events w) \<and>
       backend (snd (sweepMultiRegionAccessPoints env region w)) = backend w"
    using assms sweepMultiRegionAccessPoints_page_error [of env client pgs2 err rest2 w]
    by (simp add: USWest2RegionID_def deletions_append deletions_replicate_NextPage)
  have olap: "ListAccessPointsForObjectLambda env (AccountID client) =
        map Inr pgs3 @ Inl err # rest3 \<Longrightarrow>
       fst (sweepObjectLambdaAccessPoints env region w) =
         Some (ErrorfW ''error listing S3 Object Lambda Access Points (%s): %w'' region err) \<and>
       deletions (events (snd (sweepObjectLambdaAccessPoints env region w))) =
         deletions (events w) \<and>
       backend (snd (sweepObjectLambdaAccessPoints env region w)) = backend w"
    using assms
    by (simp add: sweepObjectLambdaAccessPoints_page_error deletions_append
        deletions_replicate_NextPage)
  have slc: "region \<noteq> ''us-gov-east-1'' \<Longrightarrow> region \<noteq> ''us-gov-west-1'' \<Longrightarrow>
     ListStorageLensConfigurations env (AccountID client) = map Inr pgs4 @ Inl err # rest4 \<Longrightarrow>
       fst (sweepStorageLensConfigurations env region w) =
         Some (ErrorfW ''error listing S3 Storage Lens Configurations (%s): %w'' region err) \<and>
       deletions (events (snd (sweepStorageLensConfigurations env region w))) =
         deletions (events w) \<and>
       backend (snd (sweepStorageLensConfigurations env region w)) = backend w"
    using assms
    by (simp add: sweepStorageLensConfigurations_page_error USGovEast1RegionID_def
        USGovWest1RegionID_def deletions_append deletions_replicate_NextPage)
  from ap mrap olap slc show ?thesis by blast
qed

theorem fatal_listing_returns_without_sweeping_witness:
  "fst (sweepAccessPoints env_fatal ''us-west-2'' w0) =
     Some (ErrorfW ''error listing S3 Access Points (%s): %w'' ''us-west-2''
             (Opaque ''RequestTimeout'')) \<and>
   deletions (events (snd (sweepAccessPoints env_fatal ''us-west-2'' w0))) = [] \<and>
   backend (snd (sweepAccessPoints env_fatal ''us-west-2'' w0)) = 0 \<and>
   fst (sweepMultiRegionAccessPoints env_fatal ''us-west-2'' w0) =
     Some (ErrorfW ''error listing S3 Multi-Region Access Points (%s): %w'' ''us-west-2''
             (Opaque ''RequestTimeout'')) \<and>
   deletions (events (snd (sweepMultiRegionAccessPoints env_fatal ''us-west-2'' w0))) = [] \<and>
   fst (sweepObjectLambdaAccessPoints env_fatal ''us-west-2'' w0) =
     Some (ErrorfW ''error listing S3 Object Lambda Access Points (%s): %w'' ''us-west-2''
             (Opaque ''RequestTimeout'')) \<and>
   deletions (events (snd (sweepObjectLambdaAccessPoints env_fatal ''us-west-2'' w0))) = [] \<and>
   fst (sweepStorageLensConfigurations env_fatal ''us-west-2'' w0) =
     Some (ErrorfW ''error listing S3 Storage Lens Configurations (%s): %w'' ''us-west-2''
             (Opaque ''RequestTimeout'')) \<and>
   deletions (events (snd (sweepStorageLensConfigurations env_fatal ''us-west-2'' w0))) = []"
  using fatal_listing_returns_without_sweeping
    [where env = env_fatal and region = "''us-west-2''" and client = client0
       and err = "Opaque ''RequestTimeout''" and w = w0
       and ?pgs1.0 = "[[AccessPoint (Some ''arn:a''), AccessPoint None]]" and ?rest1.0 = "[]"
       and ?pgs2.0 = "[[MultiRegionAccessPointReport (Some ''m1'')]]" and ?rest2.0 = "[]"
       and ?pgs3.0 = "[[ObjectLambdaAccessPoint (Some ''o1'')]]" and ?rest3.0 = "[]"
       and ?pgs4.0 = "[[ListStorageLensConfigurationEntry (Some ''lens1'')]]"
       and ?rest4.0 = "[]"]
  by (simp add: env_fatal_def env0_def w0_def client0_def)

section \<open>Classification of a listing error\<close>

text \<open>
  C3, as the claim states it, fails for access points. On the account \<open>env_skip\<close> the
  first page holds an item whose ARN does not encode, and the fetch of the second page
  fails with the error that the classifier skips. The sweeper does not return success:
  it returns the aggregate holding the build error of the first page.
\<close>

theorem skip_listing_counterexample:
  "SkipSweepError env_skip (Opaque ''UnsupportedOperation'') \<and>
   ListAccessPoints env_skip ''123456789012'' =
     [Inr [AccessPoint (Some ''arn:a''), AccessPoint None],
      Inl (Opaque ''UnsupportedOperation'')] \<and>
   fst (sweepAccessPoints env_skip ''us-west-2'' w0) =
     Some (MultiError [Opaque ''invalid ARN'']) \<and>
   fst (sweepAccessPoints env_skip ''us-west-2'' w0) \<noteq> None"
  by (simp add: sweepAccessPoints_def env_skip_def env0_def w0_def client0_def emit_def
      ToString_def Append_def ErrorOrNil_def)

text \<open>
  C3, amended. Let the first failing page fetch return \<open>err\<close>, after the pages \<open>pgs\<close>.
  When the classifier skips \<open>err\<close>, the sweeper prints its warning and returns at once,
  and \<open>err\<close> is no part of what it returns: the multi-region, Object Lambda and Storage
  Lens sweepers return nil, and the access point sweeper returns the aggregate of the
  build errors of the pages \<open>pgs\<close>, which is nil when there are none. Any other \<open>err\<close>
  makes the sweeper return an error that names the resource kind and the region and
  wraps \<open>err\<close>.
\<close>

theorem listing_error_classification:
  assumes "SharedRegionalSweepClient env region = Inr client"
  shows
   "(ListAccessPoints env (AccountID client) = map Inr pgs1 @ Inl err # rest1 \<longrightarrow>
       sweepAccessPoints env region w =
         (if SkipSweepError env err
          then (if accessPointBuildErrors env (concat pgs1) = [] then None
                else Some (MultiError (accessPointBuildErrors env (concat pgs1))),
                w\<lparr>events := events w @ GetClient region #
                     replicate (Suc (length pgs1)) (NextPage resourceAccessPoint) @
                     [Printf ''[WARN] Skipping S3 Access Point sweep for %s: %s''
                        [Str region, Err err]]\<rparr>)
          else (Some (ErrorfW ''error listing S3 Access Points (%s): %w'' region err),
                w\<lparr>events := events w @ GetClient region #
                     replicate (Suc (length pgs1)) (NextPage resourceAccessPoint)\<rparr>))) \<and>
    (region = ''us-west-2'' \<and>
     ListMultiRegionAccessPoints env (AccountID client) = map Inr pgs2 @ Inl err # rest2 \<longrightarrow>
       sweepMultiRegionAccessPoints env region w =
         (if SkipSweepError env err
          then (None,
                w\<lparr>events := events w @ GetClient region #
                     replicate (Suc (length pgs2)) (NextPage resourceMultiRegionAccessPoint) @
                     [Printf ''[WARN] Skipping S3 Multi-Region Access Point sweep for %s: %s''
                        [Str region, Err err]]\<rparr>)
          else (Some (ErrorfW ''error listing S3 Multi-Region Access Points (%s): %w''
                        region err),
                w\<lparr>events := events w @ GetClient region #
                     replicate (Suc (length pgs2))
                       (NextPage resourceMultiRegionAccessPoint)\<rparr>))) \<and>
    (ListAccessPointsForObjectLambda env (AccountID client) = map Inr pgs3 @ Inl err # rest3 \<longrightarrow>
       sweepObjectLambdaAccessPoints env region w =
         (if SkipSweepError env err
          then (None,
                w\<lparr>events := events w @ GetClient region #
                     replicate (Suc (length pgs3)) (NextPage resourceObjectLambdaAccessPoint) @
                     [Printf ''[WARN] Skipping S3 Object Lambda Access Point sweep for %s: %s''
                        [Str region, Err err]]\<rparr>)
          else (Some (ErrorfW ''error listing S3 Object Lambda Access Points (%s): %w''
                        region err),
                w\<lparr>events := events w @ GetClient region #
                     replicate (Suc (length pgs3))
                       (NextPage resourceObjectLambdaAccessPoint)\<rparr>))) \<and>
    (region \<noteq> ''us-gov-east-1'' \<and> region \<noteq> ''us-gov-west-1'' \<and>
     ListStorageLensConfigurations env (AccountID client) = map Inr pgs4 @ Inl err # rest4 \<longrightarrow>
       sweepStorageLensConfigurations env region w =
         (if SkipSweepError env err
          then (None,
                w\<lparr>events := events w @ GetClient region #
                     replicate (Suc (length pgs4)) (NextPage resourceStorageLensConfiguration) @
                     [Printf ''[WARN] Skipping S3 Storage Lens Configuration sweep for %s: %s''
                        [Str region, Err err]]\<rparr>)
          else (Some (ErrorfW ''error listing S3 Storage Lens Configurations (%s): %w''
                        region err),
                w\<lparr>events := events w @ GetClient region #
                     replicate (Suc (length pgs4))
                       (NextPage resourceStorageLensConfiguration)\<rparr>))) \<and>
    Unwrap (ErrorfW ''error listing S3 Access Points (%s): %w'' region err) = Some err \<and>
    Unwrap (ErrorfW ''error listing S3 Multi-Region Access Points (%s): %w'' region err) =
      Some err \<and>
    Unwrap (ErrorfW ''error listing S3 Object Lambda Access Points (%s): %w'' region err) =
      Some err \<and>
    Unwrap (ErrorfW ''error listing S3 Storage Lens Configurations (%s): %w'' region err) =
      Some err"
proof -
  have ap: "ListAccessPoints env (AccountID client) = map Inr pgs1 @ Inl err # rest1 \<Longrightarrow>
       sweepAccessPoints env region w =
         (if SkipSweepError env err
          then (if accessPointBuildErrors env (concat pgs1) = [] then None
                else Some (MultiError (accessPointBuildErrors env (concat pgs1))),
                w\<lparr>events := events w @ GetClient region #
                     replicate (Suc (length pgs1)) (NextPage resourceAccessPoint) @
                     [Printf ''[WARN] Skipping S3 Access Point sweep for %s: %s''
                        [Str region, Err err]]\<rparr>)
          else (Some (ErrorfW ''error listing S3 Access Points (%s): %w'' region err),
                w\<lparr>events := events w @ GetClient region #
                     replicate (Suc (length pgs1)) (NextPage resourceAccessPoint)\<rparr>))"
    using assms by (simp add: sweepAccessPoints_page_error ErrorOrNil_Appends_None)
  have mrap: "region = ''us-west-2'' \<Longrightarrow>
     ListMultiRegionAccessPoints env (AccountID client) = map Inr pgs2 @ Inl err # rest2 \<Longrightarrow>
       sweepMultiRegionAccessPoints env region w =
         (if SkipSweepError env err
          then (None,
                w\<lparr>events := events w @ GetClient region #
                     replicate (Suc (length pgs2)) (NextPage resourceMultiRegionAccessPoint) @
                     [Printf ''[WARN] Skipping S3 Multi-Region Access Point sweep for %s: %s''
                        [Str region, Err err]]\<rparr>)
          else (Some (ErrorfW ''error listing S3 Multi-Region Access Points (%s): %w''
                        region err),
                w\<lparr>events := events w @ GetClient region #
                     replicate (Suc (length pgs2))
                       (NextPage resourceMultiRegionAccessPoint)\<rparr>))"
    using assms sweepMultiRegionAccessPoints_page_error [of env client pgs2 err rest2 w]
    by (simp add: USWest2RegionID_def)
  have olap: "ListAccessPointsForObjectLambda env (AccountID client) =
         map Inr pgs3 @ Inl err # rest3 \<Longrightarrow>
       sweepObjectLambdaAccessPoints env region w =
         (if SkipSweepError env err
          then (None,
                w\<lparr>events := events w @ GetClient region #
                     replicate (Suc (length pgs3)) (NextPage resourceObjectLambdaAccessPoint) @
                     [Printf ''[WARN] Skipping S3 Object Lambda Access Point sweep for %s: %s''
                        [Str region, Err err]]\<rparr>)
          else (Some (ErrorfW ''error listing S3 Object Lambda Access Points (%s): %w''
                        region err),
                w\<lparr>events := events w @ GetClient region #
                     replicate (Suc (length pgs3))
                       (NextPage resourceObjectLambdaAccessPoint)\<rparr>))"
    using assms by (simp add: sweepObjectLambdaAccessPoints_page_error)
  have slc: "region \<noteq> ''us-gov-east-1'' \<Longrightarrow> region \<noteq> ''us-gov-west-1'' \<Longrightarrow>
     ListStorageLensConfigurations env (AccountID client) = map Inr pgs4 @ Inl err # rest4 \<Longrightarrow>
       sweepStorageLensConfigurations env region w =
         (if SkipSweepError env err
          then (None,
                w\<lparr>events := events w @ GetClient region #
                     replicate (Suc (length pgs4)) (NextPage resourceStorageLensConfiguration) @
                     [Printf ''[WARN] Skipping S3 Storage Lens Configuration sweep for %s: %s''
                        [Str region, Err err]]\<rparr>)
          else (Some (ErrorfW ''error listing S3 Storage Lens Configurations (%s): %w''
                        region err),
                w\<lparr>events := events w @ GetClient region #
                     replicate (Suc (length pgs4))
                       (NextPage resourceStorageLensConfiguration)\<rparr>))"
    using assms
    by (simp add: sweepStorageLensConfigurations_page_error USGovEast1RegionID_def
        USGovWest1RegionID_def)
  from ap mrap olap slc show ?thesis by simp
qed

theorem listing_error_classification_witness:
  "sweepAccessPoints env_skip ''us-west-2'' w0 =
     (Some (MultiError [Opaque ''invalid ARN'']),
      \<lparr>events = [GetClient ''us-west-2'', NextPage resourceAccessPoint,
                 NextPage resourceAccessPoint,
                 Printf ''[WARN] Skipping S3 Access Point sweep for %s: %s''
                   [Str ''us-west-2'', Err (Opaque ''UnsupportedOperation'')]],
       backend = 0\<rparr>) \<and>
   sweepMultiRegionAccessPoints env_skip ''us-west-2'' w0 =
     (None,
      \<lparr>events = [GetClient ''us-west-2'', NextPage resourceMultiRegionAccessPoint,
                 NextPage resourceMultiRegionAccessPoint,
                 Printf ''[WARN] Skipping S3 Multi-Region Access Point sweep for %s: %s''
                   [Str ''us-west-2'', Err (Opaque ''UnsupportedOperation'')]],
       backend = 0\<rparr>) \<and>
   sweepObjectLambdaAccessPoints env_skip ''us-west-2'' w0 =
     (None,
      \<lparr>events = [GetClient ''us-west-2'', NextPage resourceObjectLambdaAccessPoint,
                 NextPage resourceObjectLambdaAccessPoint,
                 Printf ''[WARN] Skipping S3 Object Lambda Access Point sweep for %s: %s''
                   [Str ''us-west-2'', Err (Opaque ''UnsupportedOperation'')]],
       backend = 0\<rparr>) \<and>
   sweepStorageLensConfigurations env_skip ''us-west-2'' w0 =
     (None,
      \<lparr>events = [GetClient ''us-west-2'', NextPage resourceStorageLensConfiguration,
                 NextPage resourceStorageLensConfiguration,
                 Printf ''[WARN] Skipping S3 Storage Lens Configuration sweep for %s: %s''
                   [Str ''us-west-2'', Err (Opaque ''UnsupportedOperation'')]],
       backend = 0\<rparr>) \<and>
   sweepAccessPoints env_fatal ''us-west-2'' w0 =
     (Some (ErrorfW ''error listing S3 Access Points (%s): %w'' ''us-west-2''
              (Opaque ''RequestTimeout'')),
      \<lparr>events = [GetClient ''us-west-2'', NextPage resourceAccessPoint,
                 NextPage resourceAccessPoint],
       backend = 0\<rparr>) \<and>
   sweepStorageLensConfigurations env_fatal ''us-west-2'' w0 =
     (Some (ErrorfW ''error listing S3 Storage Lens Configurations (%s): %w'' ''us-west-2''
              (Opaque ''RequestTimeout'')),
      \<lparr>events = [GetClient ''us-west-2'', NextPage resourceStorageLensConfiguration,
                 NextPage resourceStorageLensConfiguration],
       backend = 0\<rparr>) \<and>
   Unwrap (ErrorfW ''error listing S3 Access Points (%s): %w'' ''us-west-2''
             (Opaque ''RequestTimeout'')) = Some (Opaque ''RequestTimeout'')"
  using listing_error_classification
    [where env = env_fatal and region = "''us-west-2''" and client = client0
       and err = "Opaque ''RequestTimeout''" and w = w0
       and ?pgs1.0 = "[[AccessPoint (Some ''arn:a''), AccessPoint None]]" and ?rest1.0 = "[]"
       and ?pgs2.0 = "[[MultiRegionAccessPointReport (Some ''m1'')]]" and ?rest2.0 = "[]"
       and ?pgs3.0 = "[[ObjectLambdaAccessPoint (Some ''o1'')]]" and ?rest3.0 = "[]"
       and ?pgs4.0 = "[[ListStorageLensConfigurationEntry (Some ''lens1'')]]"
       and ?rest4.0 = "[]"]
    listing_error_classification
    [where env = env_skip and region = "''us-west-2''" and client = client0
       and err = "Opaque ''UnsupportedOperation''" and w = w0
       and ?pgs1.0 = "[[AccessPoint (Some ''arn:a''), AccessPoint None]]" and ?rest1.0 = "[]"
       and ?pgs2.0 = "[[MultiRegionAccessPointReport (Some ''m1'')]]" and ?rest2.0 = "[]"
       and ?pgs3.0 = "[[ObjectLambdaAccessPoint (Some ''o1'')]]" and ?rest3.0 = "[]"
       and ?pgs4.0 = "[[ListStorageLensConfigurationEntry (Some ''lens1'')]]"
       and ?rest4.0 = "[]"]
  by (simp add: env_skip_def env_fatal_def env0_def w0_def client0_def ToString_def)

section \<open>Build errors of access points\<close>



section \<open>What a run that reaches the orchestrator returns\<close>

text \<open>
  C6. When every page is fetched, the sweeper calls the orchestrator on the sweep
  resources it has built. The access point sweeper returns nil exactly when no build
  error was accumulated and the orchestrator returned no error; otherwise it returns an
  aggregate that holds every build error, in order, followed by the orchestrator's error
  wrapped with the kind and the region. The other three sweepers accumulate no build
  error: they return nil exactly when the orchestrator does, and its wrapped error
  otherwise.
\<close>

theorem sweep_result_presence:
  assumes "SharedRegionalSweepClient env region = Inr client"
  shows
   "(ListAccessPoints env (AccountID client) = map Inr pgs1 \<longrightarrow>
      (let errs = accessPointBuildErrors env (concat pgs1);
           orch = fst (SweepOrchestrator env (accessPointSweepables env client (concat pgs1))
                    (w\<lparr>events := events w @ GetClient region #
                         replicate (length pgs1) (NextPage resourceAccessPoint)\<rparr>))
       in (fst (sweepAccessPoints env region w) = None \<longleftrightarrow> errs = [] \<and> orch = None) \<and>
          fst (sweepAccessPoints env region w) =
            (case orch of
               None \<Rightarrow> if errs = [] then None else Some (MultiError errs)
             | Some e \<Rightarrow>
                 Some (MultiError
                   (errs @ [ErrorfW ''error sweeping S3 Access Points (%s): %w'' region e]))))) \<and>
    (region = ''us-west-2'' \<and>
     ListMultiRegionAccessPoints env (AccountID client) = map Inr pgs2 \<longrightarrow>
      (let orch = fst (SweepOrchestrator env
                    (map (multiRegionAccessPointSweepable env client) (concat pgs2))
                    (w\<lparr>events := events w @ GetClient region #
                         replicate (length pgs2) (NextPage resourceMultiRegionAccessPoint)\<rparr>))
       in (fst (sweepMultiRegionAccessPoints env region w) = None \<longleftrightarrow> orch = None) \<and>
          fst (sweepMultiRegionAccessPoints env region w) =
            (case orch of
               None \<Rightarrow> None
             | Some e \<Rightarrow>
                 Some (ErrorfW ''error sweeping S3 Multi-Region Access Points (%s): %w''
                         region e)))) \<and>
    (ListAccessPointsForObjectLambda env (AccountID client) = map Inr pgs3 \<longrightarrow>
      (let orch = fst (SweepOrchestrator env
                    (map (objectLambdaAccessPointSweepable env client) (concat pgs3))
                    (w\<lparr>events := events w @ GetClient region #
                         replicate (length pgs3) (NextPage resourceObjectLambdaAccessPoint)\<rparr>))
       in (fst (sweepObjectLambdaAccessPoints env region w) = None \<longleftrightarrow> orch = None) \<and>
          fst (sweepObjectLambdaAccessPoints env region w) =
            (case orch of
               None \<Rightarrow> None
             | Some e \<Rightarrow>
                 Some (ErrorfW ''error sweeping S3 Object Lambda Access Points (%s): %w''
                         region e)))) \<and>
    (region \<noteq> ''us-gov-east-1'' \<and> region \<noteq> ''us-gov-west-1'' \<and>
     ListStorageLensConfigurations env (AccountID client) = map Inr pgs4 \<longrightarrow>
      (let orch = fst (SweepOrchestrator env
                    (map (storageLensConfigurationSweepable env client)
                       (filter (\<lambda>v. \<not> isDefaultDashboard v) (concat pgs4)))
                    (w\<lparr>events := events w @ GetClient region #
                         replicate (length pgs4) (NextPage resourceStorageLensConfiguration)\<rparr>))
       in (fst (sweepStorageLensConfigurations env region w) = None \<longleftrightarrow> orch = None) \<and>
          fst (sweepStorageLensConfigurations env region w) =
            (case orch of
               None \<Rightarrow> None
             | Some e \<Rightarrow>
                 Some (ErrorfW ''error sweeping S3 Storage Lens Configurations (%s): %w''
                         region e))))"
proof -
  have ap: "ListAccessPoints env (AccountID client) = map Inr pgs1 \<Longrightarrow>
      (let errs = accessPointBuildErrors env (concat pgs1);
           orch = fst (SweepOrchestrator env (accessPointSweepables env client (concat pgs1))
                    (w\<lparr>events := events w @ GetClient region #
                         replicate (length pgs1) (NextPage resourceAccessPoint)\<rparr>))
       in (fst (sweepAccessPoints env region w) = None \<longleftrightarrow> errs = [] \<and> orch = None) \<and>
          fst (sweepAccessPoints env region w) =
            (case orch of
               None \<Rightarrow> if errs = [] then None else Some (MultiError errs)
             | Some e \<Rightarrow>
                 Some (MultiError
                   (errs @ [ErrorfW ''error sweeping S3 Access Points (%s): %w'' region e]))))"
    using assms
    by (auto simp: Let_def sweepAccessPoints_ok ErrorOrNil_Appends_None
        ErrorOrNil_Append_Appends_None split: prod.splits option.splits)
  have mrap: "region = ''us-west-2'' \<Longrightarrow>
     ListMultiRegionAccessPoints env (AccountID client) = map Inr pgs2 \<Longrightarrow>
      (let orch = fst (SweepOrchestrator env
                    (map (multiRegionAccessPointSweepable env client) (concat pgs2))
                    (w\<lparr>events := events w @ GetClient region #
                         replicate (length pgs2) (NextPage resourceMultiRegionAccessPoint)\<rparr>))
       in (fst (sweepMultiRegionAccessPoints env region w) = None \<longleftrightarrow> orch = None) \<and>
          fst (sweepMultiRegionAccessPoints env region w) =
            (case orch of
               None \<Rightarrow> None
             | Some e \<Rightarrow>
                 Some (ErrorfW ''error sweeping S3 Multi-Region Access Points (%s): %w''
                         region e)))"
    using assms sweepMultiRegionAccessPoints_ok [of env client pgs2 w]
    by (auto simp: Let_def USWest2RegionID_def split: prod.splits option.splits)
  have olap: "ListAccessPointsForObjectLambda env (AccountID client) = map Inr pgs3 \<Longrightarrow>
      (let orch = fst (SweepOrchestrator env
                    (map (objectLambdaAccessPointSweepable env client) (concat pgs3))
                    (w\<lparr>events := events w @ GetClient region #
                         replicate (length pgs3) (NextPage resourceObjectLambdaAccessPoint)\<rparr>))
       in (fst (sweepObjectLambdaAccessPoints env region w) = None \<longleftrightarrow> orch = None) \<and>
          fst (sweepObjectLambdaAccessPoints env region w) =
            (case orch of
               None \<Rightarrow> None
             | Some e \<Rightarrow>
                 Some (ErrorfW ''error sweeping S3 Object Lambda Access Points (%s): %w''
                         region e)))"
    using assms
    by (auto simp: Let_def sweepObjectLambdaAccessPoints_ok split: prod.splits option.splits)
  have slc: "region \<noteq> ''us-gov-east-1'' \<Longrightarrow> region \<noteq> ''us-gov-west-1'' \<Longrightarrow>
     ListStorageLensConfigurations env (AccountID client) = map Inr pgs4 \<Longrightarrow>
      (let orch = fst (SweepOrchestrator env
                    (map (storageLensConfigurationSweepable env client)
                       (filter (\<lambda>v. \<not> isDefaultDashboard v) (concat pgs4)))
                    (w\<lparr>events := events w @ GetClient region #
                         replicate (length pgs4) (NextPage resourceStorageLensConfiguration)\<rparr>))
       in (fst (sweepStorageLensConfigurations env region w) = None \<longleftrightarrow> orch = None) \<and>
          fst (sweepStorageLensConfigurations env region w) =
            (case orch of
               None \<Rightarrow> None
             | Some e \<Rightarrow>
                 Some (ErrorfW ''error sweeping S3 Storage Lens Configurations (%s): %w''
                         region e)))"
    using assms
    by (auto simp: Let_def sweepStorageLensConfigurations_ok USGovEast1RegionID_def
        USGovWest1RegionID_def split: prod.splits option.splits)
  from ap mrap olap slc show ?thesis by blast
qed

theorem sweep_result_presence_witness:
  "fst (sweepAccessPoints env0 ''us-west-2'' w0) = Some (MultiError [Opaque ''invalid ARN'']) \<and>
   fst (sweepAccessPoints env_del ''us-west-2'' w0) =
     Some (MultiError
       [Opaque ''invalid ARN'',
        ErrorfW ''error sweeping S3 Access Points (%s): %w'' ''us-west-2''
          (MultiError [Opaque ''AccessDenied''])]) \<and>
   fst (sweepMultiRegionAccessPoints env0 ''us-west-2'' w0) = None \<and>
   fst (sweepObjectLambdaAccessPoints env0 ''us-west-2'' w0) = None \<and>
   fst (sweepStorageLensConfigurations env0 ''us-west-2'' w0) = None"
  using sweep_result_presence
    [where env = env0 and region = "''us-west-2''" and client = client0 and w = w0
       and ?pgs1.0 =
         "[[AccessPoint (Some ''arn:a''), AccessPoint None, AccessPoint (Some ''arn:b'')],
           [AccessPoint (Some ''arn:c''), AccessPoint (Some ''arn:d'')]]"
       and ?pgs2.0 = "[[MultiRegionAccessPointReport (Some ''m1'')],
                       [MultiRegionAccessPointReport (Some ''m2'')]]"
       and ?pgs3.0 = "[[ObjectLambdaAccessPoint (Some ''o1''), ObjectLambdaAccessPoint None]]"
       and ?pgs4.0 = "[[ListStorageLensConfigurationEntry (Some ''lens1'')],
                       [ListStorageLensConfigurationEntry (Some ''default-account-dashboard''),
                        ListStorageLensConfigurationEntry (Some ''lens2'')]]"]
    sweep_result_presence
    [where env = env_del and region = "''us-west-2''" and client = client0 and w = w0
       and ?pgs1.0 =
         "[[AccessPoint (Some ''arn:a''), AccessPoint None, AccessPoint (Some ''arn:b'')],
           [AccessPoint (Some ''arn:c''), AccessPoint (Some ''arn:d'')]]"
       and ?pgs2.0 = "[]" and ?pgs3.0 = "[]" and ?pgs4.0 = "[]"]
  by (simp add: env_del_def env0_def w0_def client0_def ToString_def SweepOrchestrator_def
      Let_def)

section \<open>The default dashboard\<close>

text \<open>
  C9. The Storage Lens sweeper builds no sweep resource for a listed configuration whose
  identifier is \<^verbatim>\<open>default-account-dashboard\<close>: the item loop passes over it, on whatever
  page it stands the page loop accumulates the resources of the other configurations
  only, and a run in which every page is fetched deletes exactly those.
\<close>

theorem default_dashboard_never_swept:
  "(isDefaultDashboard v \<longleftrightarrow> ToString (SLC_Id v) = ''default-account-dashboard'') \<and>
   (isDefaultDashboard v \<longrightarrow>
      StorageLensConfigurationList_range env (AccountID client) client (vs1 @ v # vs2) rs =
        StorageLensConfigurationList_range env (AccountID client) client (vs1 @ vs2) rs) \<and>
   StorageLensConfigurations_pages env region client (map Inr pgs @ rest) rs w =
     StorageLensConfigurations_pages env region client rest
       (rs @ map (storageLensConfigurationSweepable env client)
               (filter (\<lambda>v. \<not> isDefaultDashboard v) (concat pgs)))
       (w\<lparr>events := events w @
            replicate (length pgs) (NextPage resourceStorageLensConfiguration)\<rparr>) \<and>
   (region \<noteq> ''us-gov-east-1'' \<and> region \<noteq> ''us-gov-west-1'' \<and>
    SharedRegionalSweepClient env region = Inr client \<and>
    ListStorageLensConfigurations env (AccountID client) = map Inr pgs \<longrightarrow>
      deletions (events (snd (sweepStorageLensConfigurations env region w))) =
        deletions (events w) @
        map (storageLensConfigurationSweepable env client)
          (filter (\<lambda>v. \<not> isDefaultDashboard v) (concat pgs)))"
proof -
  have run: "region \<noteq> ''us-gov-east-1'' \<Longrightarrow> region \<noteq> ''us-gov-west-1'' \<Longrightarrow>
    SharedRegionalSweepClient env region = Inr client \<Longrightarrow>
    ListStorageLensConfigurations env (AccountID client) = map Inr pgs \<Longrightarrow>
      deletions (events (snd (sweepStorageLensConfigurations env region w))) =
        deletions (events w) @
        map (storageLensConfigurationSweepable env client)
          (filter (\<lambda>v. \<not> isDefaultDashboard v) (concat pgs))"
  proof -
    assume a: "region \<noteq> ''us-gov-east-1''" "region \<noteq> ''us-gov-west-1''"
      "SharedRegionalSweepClient env region = Inr client"
      "ListStorageLensConfigurations env (AccountID client) = map Inr pgs"
    let ?rs = "map (storageLensConfigurationSweepable env client)
                 (filter (\<lambda>v. \<not> isDefaultDashboard v) (concat pgs))"
    let ?w1 = "w\<lparr>events := events w @ GetClient region #
                 replicate (length pgs) (NextPage resourceStorageLensConfiguration)\<rparr>"
    have "snd (sweepStorageLensConfigurations env region w) = snd (SweepOrchestrator env ?rs ?w1)"
      using a
      by (simp add: sweepStorageLensConfigurations_ok USGovEast1RegionID_def
          USGovWest1RegionID_def split: prod.splits option.splits)
    then show ?thesis
      by (simp add: deletions_SweepOrchestrator deletions_append deletions_replicate_NextPage)
  qed
  show ?thesis
    using run
    by (simp add: isDefaultDashboard_def [symmetric] StorageLensConfigurationList_range_skip
        StorageLensConfigurations_pages_prefix)
qed

theorem default_dashboard_never_swept_witness:
  "isDefaultDashboard (ListStorageLensConfigurationEntry (Some ''default-account-dashboard'')) \<and>
   StorageLensConfigurationList_range env0 ''123456789012'' client0
     [ListStorageLensConfigurationEntry (Some ''default-account-dashboard''),
      ListStorageLensConfigurationEntry (Some ''lens2'')] [] =
     [NewSweepResource resourceStorageLensConfiguration ''123456789012:lens2'' client0] \<and>
   deletions (events (snd (sweepStorageLensConfigurations env0 ''us-west-2'' w0))) =
     [NewSweepResource resourceStorageLensConfiguration ''123456789012:lens1'' client0,
      NewSweepResource resourceStorageLensConfiguration ''123456789012:lens2'' client0]"
  using default_dashboard_never_swept
    [where env = env0 and region = "''us-west-2''" and client = client0 and w = w0
       and v = "ListStorageLensConfigurationEntry (Some ''default-account-dashboard'')"
       and ?vs1.0 = "[]" and ?vs2.0 = "[ListStorageLensConfigurationEntry (Some ''lens2'')]"
       and rs = "[]" and rest = "[]"
       and pgs = "[[ListStorageLensConfigurationEntry (Some ''lens1'')],
                   [ListStorageLensConfigurationEntry (Some ''default-account-dashboard''),
                    ListStorageLensConfigurationEntry (Some ''lens2'')]]"]
  by (simp add: env0_def w0_def client0_def ToString_def isDefaultDashboard_def
      storageLensConfigurationSweepable_def)

section \<open>Kinds whose identifier always encodes\<close>

text \<open>
  C10. In the multi-region and the Object Lambda sweepers every item of every fetched
  page yields exactly one sweep resource, built from the account and the name of the
  item; the loops carry no error accumulator. Every listing is either fetched to its end
  or has a first failing page, so the runs of the two sweepers are these. A run that
  fetches every page hands the orchestrator exactly one sweep resource per listed item,
  in the order of the listing, attempts the deletion of exactly those, and returns nil
  or the orchestrator's error, wrapped. A run whose page fetch fails returns nil when the
  classifier skips the error and the wrapped listing error otherwise. A run that gets no
  client returns that failure. An error returned by either sweeper is therefore the
  failure to get the client, a listing error that the classifier does not skip, or an
  error of the orchestrator: no error comes from building an identifier.
\<close>

theorem one_sweepable_per_item:
  "MultiRegionAccessPoints_pages env region client (map Inr pgs2 @ rest2) rs w =
     MultiRegionAccessPoints_pages env region client rest2
       (rs @ map (multiRegionAccessPointSweepable env client) (concat pgs2))
       (w\<lparr>events := events w @
            replicate (length pgs2) (NextPage resourceMultiRegionAccessPoint)\<rparr>) \<and>
   length (map (multiRegionAccessPointSweepable env client) (concat pgs2)) =
     length (concat pgs2) \<and>
   ObjectLambdaAccessPoints_pages env region client (map Inr pgs3 @ rest3) rs w =
     ObjectLambdaAccessPoints_pages env region client rest3
       (rs @ map (objectLambdaAccessPointSweepable env client) (concat pgs3))
       (w\<lparr>events := events w @
            replicate (length pgs3) (NextPage resourceObjectLambdaAccessPoint)\<rparr>) \<and>
   length (map (objectLambdaAccessPointSweepable env client) (concat pgs3)) =
     length (concat pgs3) \<and>
   (region = ''us-west-2'' \<and> SharedRegionalSweepClient env region = Inr client \<and>
    ListMultiRegionAccessPoints env (AccountID client) = map Inr pgs2 \<longrightarrow>
      sweepMultiRegionAccessPoints env region w =
        (case SweepOrchestrator env
                (map (multiRegionAccessPointSweepable env client) (concat pgs2))
                (w\<lparr>events := events w @ GetClient region #
                     replicate (length pgs2) (NextPage resourceMultiRegionAccessPoint)\<rparr>) of
           (None, w2) \<Rightarrow> (None, w2)
         | (Some err, w2) \<Rightarrow>
             (Some (ErrorfW ''error sweeping S3 Multi-Region Access Points (%s): %w''
                      region err),
              w2)) \<and>
      deletions (events (snd (sweepMultiRegionAccessPoints env region w))) =
        deletions (events w) @
        map (multiRegionAccessPointSweepable env client) (concat pgs2)) \<and>
   (region = ''us-west-2'' \<and> SharedRegionalSweepClient env region = Inr client \<and>
    ListMultiRegionAccessPoints env (AccountID client) = map Inr pgs2 @ Inl lerr # rest2 \<longrightarrow>
      sweepMultiRegionAccessPoints env region w =
        (if SkipSweepError env lerr
         then (None,
               w\<lparr>events := events w @ GetClient region #
                    replicate (Suc (length pgs2)) (NextPage resourceMultiRegionAccessPoint) @
                    [Printf ''[WARN] Skipping S3 Multi-Region Access Point sweep for %s: %s''
                       [Str region, Err lerr]]\<rparr>)
         else (Some (ErrorfW ''error listing S3 Multi-Region Access Points (%s): %w''
                       region lerr),
               w\<lparr>events := events w @ GetClient region #
                    replicate (Suc (length pgs2))
                      (NextPage resourceMultiRegionAccessPoint)\<rparr>))) \<and>
   (region = ''us-west-2'' \<and> SharedRegionalSweepClient env region = Inl cerr \<longrightarrow>
      sweepMultiRegionAccessPoints env region w =
        (Some (ErrorfS ''error getting client: %s'' cerr),
         w\<lparr>events := events w @ [GetClient region]\<rparr>)) \<and>
   (SharedRegionalSweepClient env region = Inr client \<and>
    ListAccessPointsForObjectLambda env (AccountID client) = map Inr pgs3 \<longrightarrow>
      sweepObjectLambdaAccessPoints env region w =
        (case SweepOrchestrator env
                (map (objectLambdaAccessPointSweepable env client) (concat pgs3))
                (w\<lparr>events := events w @ GetClient region #
                     replicate (length pgs3) (NextPage resourceObjectLambdaAccessPoint)\<rparr>) of
           (None, w2) \<Rightarrow> (None, w2)
         | (Some err, w2) \<Rightarrow>
             (Some (ErrorfW ''error sweeping S3 Object Lambda Access Points (%s): %w''
                      region err),
              w2)) \<and>
      deletions (events (snd (sweepObjectLambdaAccessPoints env region w))) =
        deletions (events w) @
        map (objectLambdaAccessPointSweepable env client) (concat pgs3)) \<and>
   (SharedRegionalSweepClient env region = Inr client \<and>
    ListAccessPointsForObjectLambda env (AccountID client) =
      map Inr pgs3 @ Inl lerr # rest3 \<longrightarrow>
      sweepObjectLambdaAccessPoints env region w =
        (if SkipSweepError env lerr
         then (None,
               w\<lparr>events := events w @ GetClient region #
                    replicate (Suc (length pgs3)) (NextPage resourceObjectLambdaAccessPoint) @
                    [Printf ''[WARN] Skipping S3 Object Lambda Access Point sweep for %s: %s''
                       [Str region, Err lerr]]\<rparr>)
         else (Some (ErrorfW ''error listing S3 Object Lambda Access Points (%s): %w''
                       region lerr),
               w\<lparr>events := events w @ GetClient region #
                    replicate (Suc (length pgs3))
                      (NextPage resourceObjectLambdaAccessPoint)\<rparr>))) \<and>
   (SharedRegionalSweepClient env region = Inl cerr \<longrightarrow>
      sweepObjectLambdaAccessPoints env region w =
        (Some (ErrorfS ''error getting client: %s'' cerr),
         w\<lparr>events := events w @ [GetClient region]\<rparr>)) \<and>
   ((\<exists>pgs. ListMultiRegionAccessPoints env accountID = map Inr pgs) \<or>
    (\<exists>pgs err rest.
       ListMultiRegionAccessPoints env accountID = map Inr pgs @ Inl err # rest)) \<and>
   ((\<exists>pgs. ListAccessPointsForObjectLambda env accountID = map Inr pgs) \<or>
    (\<exists>pgs err rest.
       ListAccessPointsForObjectLambda env accountID = map Inr pgs @ Inl err # rest)) \<and>
   (case fst (sweepMultiRegionAccessPoints env region w) of
      None \<Rightarrow> True
    | Some e \<Rightarrow>
        (\<exists>err. SharedRegionalSweepClient env region = Inl err \<and>
           e = ErrorfS ''error getting client: %s'' err) \<or>
        (\<exists>client err. SharedRegionalSweepClient env region = Inr client \<and>
           Inl err \<in> set (ListMultiRegionAccessPoints env (AccountID client)) \<and>
           \<not> SkipSweepError env err \<and>
           e = ErrorfW ''error listing S3 Multi-Region Access Points (%s): %w'' region err) \<or>
        (\<exists>rs w1 err. fst (SweepOrchestrator env rs w1) = Some err \<and>
           e = ErrorfW ''error sweeping S3 Multi-Region Access Points (%s): %w'' region err)) \<and>
   (case fst (sweepObjectLambdaAccessPoints env region w) of
      None \<Rightarrow> True
    | Some e \<Rightarrow>
        (\<exists>err. SharedRegionalSweepClient env region = Inl err \<and>
           e = ErrorfS ''error getting client: %s'' err) \<or>
        (\<exists>client err. SharedRegionalSweepClient env region = Inr client \<and>
           Inl err \<in> set (ListAccessPointsForObjectLambda env (AccountID client)) \<and>
           \<not> SkipSweepError env err \<and>
           e = ErrorfW ''error listing S3 Object Lambda Access Points (%s): %w'' region err) \<or>
        (\<exists>rs w1 err. fst (SweepOrchestrator env rs w1) = Some err \<and>
           e = ErrorfW ''error sweeping S3 Object Lambda Access Points (%s): %w'' region err))"
  (is "?P2 \<and> ?L2 \<and> ?P3 \<and> ?L3 \<and> ?MOK \<and> ?MERR \<and> ?MCL \<and> ?OOK \<and> ?OERR \<and> ?OCL \<and>
       ?MD \<and> ?OD \<and> ?MF \<and> ?OF")
proof -
  have p2: ?P2 by (rule MultiRegionAccessPoints_pages_prefix)
  have l2: ?L2 by simp
  have p3: ?P3 by (rule ObjectLambdaAccessPoints_pages_prefix)
  have l3: ?L3 by simp
  have mok: ?MOK
  proof (intro impI, elim conjE)
    assume r: "region = ''us-west-2''"
      and c: "SharedRegionalSweepClient env region = Inr client"
      and l: "ListMultiRegionAccessPoints env (AccountID client) = map Inr pgs2"
    have r': "region = USWest2RegionID" using r by (simp add: USWest2RegionID_def)
    from c have c': "SharedRegionalSweepClient env USWest2RegionID = Inr client"
      unfolding r' .
    show "sweepMultiRegionAccessPoints env region w =
        (case SweepOrchestrator env
                (map (multiRegionAccessPointSweepable env client) (concat pgs2))
                (w\<lparr>events := events w @ GetClient region #
                     replicate (length pgs2) (NextPage resourceMultiRegionAccessPoint)\<rparr>) of
           (None, w2) \<Rightarrow> (None, w2)
         | (Some err, w2) \<Rightarrow>
             (Some (ErrorfW ''error sweeping S3 Multi-Region Access Points (%s): %w''
                      region err),
              w2)) \<and>
      deletions (events (snd (sweepMultiRegionAccessPoints env region w))) =
        deletions (events w) @
        map (multiRegionAccessPointSweepable env client) (concat pgs2)"
      unfolding r
      using sweepMultiRegionAccessPoints_ok [OF c' l, of w, unfolded USWest2RegionID_def]
        sweepMultiRegionAccessPoints_run [OF c' l, of w, unfolded USWest2RegionID_def]
      by (intro conjI)
  qed
  have merr: ?MERR
  proof (intro impI, elim conjE)
    assume r: "region = ''us-west-2''"
      and c: "SharedRegionalSweepClient env region = Inr client"
      and l: "ListMultiRegionAccessPoints env (AccountID client) =
                map Inr pgs2 @ Inl lerr # rest2"
    have r': "region = USWest2RegionID" using r by (simp add: USWest2RegionID_def)
    from c have c': "SharedRegionalSweepClient env USWest2RegionID = Inr client"
      unfolding r' .
    show "sweepMultiRegionAccessPoints env region w =
        (if SkipSweepError env lerr
         then (None,
               w\<lparr>events := events w @ GetClient region #
                    replicate (Suc (length pgs2)) (NextPage resourceMultiRegionAccessPoint) @
                    [Printf ''[WARN] Skipping S3 Multi-Region Access Point sweep for %s: %s''
                       [Str region, Err lerr]]\<rparr>)
         else (Some (ErrorfW ''error listing S3 Multi-Region Access Points (%s): %w''
                       region lerr),
               w\<lparr>events := events w @ GetClient region #
                    replicate (Suc (length pgs2))
                      (NextPage resourceMultiRegionAccessPoint)\<rparr>))"
      unfolding r
      using sweepMultiRegionAccessPoints_page_error [OF c' l, of w, unfolded USWest2RegionID_def]
      by this
  qed
  have mcl: ?MCL
  proof (intro impI, elim conjE)
    assume r: "region = ''us-west-2''"
      and c: "SharedRegionalSweepClient env region = Inl cerr"
    have r': "region = USWest2RegionID" using r by (simp add: USWest2RegionID_def)
    from c have c': "SharedRegionalSweepClient env USWest2RegionID = Inl cerr"
      unfolding r' .
    show "sweepMultiRegionAccessPoints env region w =
        (Some (ErrorfS ''error getting client: %s'' cerr),
         w\<lparr>events := events w @ [GetClient region]\<rparr>)"
      unfolding r
      using sweepMultiRegionAccessPoints_no_client [OF c', of w, unfolded USWest2RegionID_def]
      by this
  qed
  have ook: ?OOK
    using sweepObjectLambdaAccessPoints_ok [of env region client pgs3 w]
      sweepObjectLambdaAccessPoints_run [of env region client pgs3 w]
    by simp
  have oerr: ?OERR
    using sweepObjectLambdaAccessPoints_page_error [of env region client pgs3 lerr rest3 w]
    by simp
  have ocl: ?OCL
    using sweepObjectLambdaAccessPoints_no_client [of env region cerr w] by simp
  have md: ?MD by (rule pages_cases)
  have od: ?OD by (rule pages_cases)
  have mf: ?MF
    using sweepMultiRegionAccessPoints_failures [of env region w]
    by (cases "fst (sweepMultiRegionAccessPoints env region w)") simp_all
  have "of": ?OF
    using sweepObjectLambdaAccessPoints_failures [of env region w]
    by (cases "fst (sweepObjectLambdaAccessPoints env region w)") simp_all
  show ?thesis
    by (intro conjI p2 l2 p3 l3 mok merr mcl ook oerr ocl md od mf "of")
qed

theorem one_sweepable_per_item_witness:
  "MultiRegionAccessPoints_pages env0 ''us-west-2'' client0
       (ListMultiRegionAccessPoints env0 ''123456789012'') [] w0 =
     (Inr [NewSweepResource resourceMultiRegionAccessPoint ''123456789012:m1'' client0,
           NewSweepResource resourceMultiRegionAccessPoint ''123456789012:m2'' client0],
      \<lparr>events = [NextPage resourceMultiRegionAccessPoint,
                 NextPage resourceMultiRegionAccessPoint],
       backend = 0\<rparr>) \<and>
   ObjectLambdaAccessPoints_pages env0 ''us-west-2'' client0
       (ListAccessPointsForObjectLambda env0 ''123456789012'') [] w0 =
     (Inr [NewSweepResource resourceObjectLambdaAccessPoint ''123456789012:o1'' client0,
           NewSweepResource resourceObjectLambdaAccessPoint ''123456789012:'' client0],
      \<lparr>events = [NextPage resourceObjectLambdaAccessPoint], backend = 0\<rparr>) \<and>
   sweepMultiRegionAccessPoints env0 ''us-west-2'' w0 =
     (None,
      \<lparr>events =
         [GetClient ''us-west-2'', NextPage resourceMultiRegionAccessPoint,
          NextPage resourceMultiRegionAccessPoint,
          DeleteCall (NewSweepResource resourceMultiRegionAccessPoint ''123456789012:m1''
                        client0),
          DeleteCall (NewSweepResource resourceMultiRegionAccessPoint ''123456789012:m2''
                        client0)],
       backend = 2\<rparr>) \<and>
   deletions (events (snd (sweepMultiRegionAccessPoints env0 ''us-west-2'' w0))) =
     [NewSweepResource resourceMultiRegionAccessPoint ''123456789012:m1'' client0,
      NewSweepResource resourceMultiRegionAccessPoint ''123456789012:m2'' client0] \<and>
   deletions (events (snd (sweepObjectLambdaAccessPoints env0 ''us-west-2'' w0))) =
     [NewSweepResource resourceObjectLambdaAccessPoint ''123456789012:o1'' client0,
      NewSweepResource resourceObjectLambdaAccessPoint ''123456789012:'' client0] \<and>
   fst (sweepObjectLambdaAccessPoints env0 ''us-west-2'' w0) = None \<and>
   sweepMultiRegionAccessPoints env_fatal ''us-west-2'' w0 =
     (Some (ErrorfW ''error listing S3 Multi-Region Access Points (%s): %w'' ''us-west-2''
              (Opaque ''RequestTimeout'')),
      \<lparr>events = [GetClient ''us-west-2'', NextPage resourceMultiRegionAccessPoint,
                 NextPage resourceMultiRegionAccessPoint],
       backend = 0\<rparr>) \<and>
   sweepObjectLambdaAccessPoints
       (env0\<lparr>SharedRegionalSweepClient := (\<lambda>region. Inl (Opaque ''NoCredentialProviders''))\<rparr>)
       ''us-west-2'' w0 =
     (Some (ErrorfS ''error getting client: %s'' (Opaque ''NoCredentialProviders'')),
      \<lparr>events = [GetClient ''us-west-2''], backend = 0\<rparr>)"
  using one_sweepable_per_item
    [where env = env0 and region = "''us-west-2''" and client = client0 and w = w0
       and rs = "[]" and ?rest2.0 = "[]" and ?rest3.0 = "[]"
       and ?pgs2.0 = "[[MultiRegionAccessPointReport (Some ''m1'')],
                       [MultiRegionAccessPointReport (Some ''m2'')]]"
       and ?pgs3.0 = "[[ObjectLambdaAccessPoint (Some ''o1''), ObjectLambdaAccessPoint None]]"]
    one_sweepable_per_item
    [where env = env_fatal and region = "''us-west-2''" and client = client0 and w = w0
       and rs = "[]" and ?rest2.0 = "[]" and ?rest3.0 = "[]"
       and lerr = "Opaque ''RequestTimeout''"
       and ?pgs2.0 = "[[MultiRegionAccessPointReport (Some ''m1'')]]"
       and ?pgs3.0 = "[[ObjectLambdaAccessPoint (Some ''o1'')]]"]
    one_sweepable_per_item
    [where env = "env0\<lparr>SharedRegionalSweepClient :=
                      (\<lambda>region. Inl (Opaque ''NoCredentialProviders''))\<rparr>"
       and region = "''us-west-2''" and w = w0 and cerr = "Opaque ''NoCredentialProviders''"
       and ?pgs2.0 = "[]" and ?pgs3.0 = "[]"]
  by (simp add: env_fatal_def env0_def w0_def client0_def ToString_def
      multiRegionAccessPointSweepable_def objectLambdaAccessPointSweepable_def
      SweepOrchestrator_def)

section \<open>The codec round trip\<close>

text \<open>
  C7. For every valid natural key, decoding the encoded identifier gives the key back.
  The codec is the delimited codec of the spec, the same for the four resource kinds:
  a key is a non-empty sequence of components, none of which holds the delimiter.
\<close>

theorem codec_round_trip:
  "valid_key sep ks \<Longrightarrow> decode sep (encode sep ks) = ks"
  by (simp add: valid_key_def decode_def split_at_encode)

theorem codec_round_trip_witness:
  "valid_key CHR '':'' [''123456789012'', ''my-access-point''] \<and>
   encode CHR '':'' [''123456789012'', ''my-access-point''] = ''123456789012:my-access-point'' \<and>
   decode CHR '':'' ''123456789012:my-access-point'' = [''123456789012'', ''my-access-point'']"
proof -
  have v: "valid_key CHR '':'' [''123456789012'', ''my-access-point'']"
    by (simp add: valid_key_def)
  have e: "encode CHR '':'' [''123456789012'', ''my-access-point''] =
      ''123456789012:my-access-point''"
    by simp
  from v e codec_round_trip [OF v] show ?thesis by simp
qed

section \<open>Access points are swept after Object Lambda access points\<close>

text \<open>
  C8. \<^verbatim>\<open>init\<close> registers the four kinds without a duplicate, and the entry of
  \<^verbatim>\<open>aws_s3_access_point\<close> declares exactly one dependency,
  \<^verbatim>\<open>aws_s3control_object_lambda_access_point\<close>. Whatever the order in which the harness
  takes the names up, a run of the full registry ends, sweeps no kind twice, and invokes
  the access point sweeper only after the Object Lambda sweeper has returned; the access
  point sweeper is invoked whenever its name is among those taken up.
\<close>

theorem access_point_swept_after_object_lambda:
  "\<exists>reg. (init :: 'b registry option) = Some reg \<and>
     map_option Dependencies (map_of reg ''aws_s3_access_point'') =
       Some [''aws_s3control_object_lambda_access_point''] \<and>
     (\<forall>(env :: 'b env) region order w.
        \<exists>st. runSweepers reg env region order w = Some st \<and>
          distinct (map fst (results st)) \<and>
          (''aws_s3_access_point'' \<in> set (map fst (results st)) \<longrightarrow>
             before ''aws_s3control_object_lambda_access_point'' ''aws_s3_access_point''
               (map fst (results st))) \<and>
          (''aws_s3_access_point'' \<in> set order \<longrightarrow>
             ''aws_s3_access_point'' \<in> set (map fst (results st))))"
proof -
  obtain reg :: "'b registry" where reg: "init = Some reg"
    by (simp add: init_eq)
  have ap: "map_of reg ''aws_s3_access_point'' =
      Some \<lparr>Name = ''aws_s3_access_point'', F = sweepAccessPoints,
            Dependencies = [''aws_s3control_object_lambda_access_point'']\<rparr>"
    using reg by (auto simp: init_eq)
  have ol: "map_of reg ''aws_s3control_object_lambda_access_point'' =
      Some \<lparr>Name = ''aws_s3control_object_lambda_access_point'',
            F = sweepObjectLambdaAccessPoints, Dependencies = []\<rparr>"
    using reg by (auto simp: init_eq)
  have leaf: "\<forall>name s. name \<noteq> ''aws_s3_access_point'' \<longrightarrow> map_of reg name = Some s \<longrightarrow>
      Dependencies s = []"
    using reg by (auto simp: init_eq split: if_splits)
  have len: "length reg = 4"
    using reg by (auto simp: init_eq)
  have dom: "''aws_s3_access_point'' \<in> dom (map_of reg)"
    using ap by (simp add: domIff)
  have start: "swept_in_order \<lparr>results = [], world = w\<rparr>" for w :: "'b world"
    by (simp add: swept_in_order_def swept_def)
  have "\<exists>st. runSweepers reg env region order w = Some st \<and>
          distinct (map fst (results st)) \<and>
          (''aws_s3_access_point'' \<in> set (map fst (results st)) \<longrightarrow>
             before ''aws_s3control_object_lambda_access_point'' ''aws_s3_access_point''
               (map fst (results st))) \<and>
          (''aws_s3_access_point'' \<in> set order \<longrightarrow>
             ''aws_s3_access_point'' \<in> set (map fst (results st)))"
    for env :: "'b env" and region order w
  proof -
    from runSweeperList_in_order [OF ap _ ol leaf start,
        where n = 3 and env = env and region = region and order = order and w1 = w]
    obtain st where
      st: "runSweeperList (Suc (Suc 3)) reg env region order \<lparr>results = [], world = w\<rparr> =
             Some st"
        "swept_in_order st"
        "\<forall>name \<in> set order. name \<in> dom (map_of reg) \<longrightarrow> name \<in> set (swept st)"
      by auto
    have "runSweepers reg env region order w = Some st"
      using st(1) len by (simp add: runSweepers_def)
    with st(2) st(3) dom show ?thesis
      unfolding swept_in_order_def swept_def by blast
  qed
  with reg ap show ?thesis
    by auto
qed

theorem access_point_swept_after_object_lambda_witness:
  "\<exists>reg st. (init :: nat registry option) = Some reg \<and>
     runSweepers reg env0 ''us-west-2''
       [''aws_s3_access_point'', ''aws_s3control_object_lambda_access_point''] w0 = Some st \<and>
     map fst (results st) =
       [''aws_s3control_object_lambda_access_point'', ''aws_s3_access_point''] \<and>
     before ''aws_s3control_object_lambda_access_point'' ''aws_s3_access_point''
       (map fst (results st))"
  using access_point_swept_after_object_lambda [where 'b = nat]
  by (auto simp: init_eq runSweepers_def before_def split: prod.splits)

end
